theory Spec2Isabelle
  imports Complex_Main
begin

section \<open>GLSL values and built-in functions\<close>

text \<open>
  The shaders compute on \<open>float\<close>, \<open>vec2\<close>, \<open>vec3\<close> and \<open>vec4\<close>. A \<open>float\<close> is
  modelled as a real number: every statement below is about the arithmetic the shader
  source writes down, not about the rounding of a particular GPU.
\<close>

datatype vec2 = vec2 (x2: real) (y2: real)

datatype vec3 = vec3 (x3: real) (y3: real) (z3: real)

datatype vec4 = vec4 (x4: real) (y4: real) (z4: real) (w4: real)

text \<open>A \<open>sampler2D\<close> uniform is the texture it is bound to: a function from texture
  coordinates to an RGBA texel. \<open>texture2D(s, uv).r\<close> is \<open>x4 (texture2D s uv)\<close>.\<close>

type_synonym sampler2D = "vec2 \<Rightarrow> vec4"

definition texture2D :: "sampler2D \<Rightarrow> vec2 \<Rightarrow> vec4" where
  "texture2D s uv = s uv"

definition map3 :: "(real \<Rightarrow> real) \<Rightarrow> vec3 \<Rightarrow> vec3" where
  "map3 f v = vec3 (f (x3 v)) (f (y3 v)) (f (z3 v))"

definition zip3 :: "(real \<Rightarrow> real \<Rightarrow> real) \<Rightarrow> vec3 \<Rightarrow> vec3 \<Rightarrow> vec3" where
  "zip3 f u v = vec3 (f (x3 u) (x3 v)) (f (y3 u) (y3 v)) (f (z3 u) (z3 v))"

definition map4 :: "(real \<Rightarrow> real) \<Rightarrow> vec4 \<Rightarrow> vec4" where
  "map4 f v = vec4 (f (x4 v)) (f (y4 v)) (f (z4 v)) (f (w4 v))"

definition zip4 :: "(real \<Rightarrow> real \<Rightarrow> real) \<Rightarrow> vec4 \<Rightarrow> vec4 \<Rightarrow> vec4" where
  "zip4 f u v = vec4 (f (x4 u) (x4 v)) (f (y4 u) (y4 v)) (f (z4 u) (z4 v)) (f (w4 u) (w4 v))"

text \<open>\<open>v * s\<close>, \<open>v + s\<close>, \<open>u + v\<close>, \<open>u - v\<close> and \<open>u * v\<close> on \<open>vec3\<close>; \<open>vec3(s)\<close>.\<close>

definition smul3 :: "vec3 \<Rightarrow> real \<Rightarrow> vec3" where
  "smul3 v s = map3 (\<lambda>c. c * s) v"

definition sadd3 :: "vec3 \<Rightarrow> real \<Rightarrow> vec3" where
  "sadd3 v s = map3 (\<lambda>c. c + s) v"

definition add3 :: "vec3 \<Rightarrow> vec3 \<Rightarrow> vec3" where
  "add3 u v = zip3 (+) u v"

definition sub3 :: "vec3 \<Rightarrow> vec3 \<Rightarrow> vec3" where
  "sub3 u v = zip3 (-) u v"

definition mul3 :: "vec3 \<Rightarrow> vec3 \<Rightarrow> vec3" where
  "mul3 u v = zip3 (*) u v"

definition splat3 :: "real \<Rightarrow> vec3" where
  "splat3 s = vec3 s s s"

definition splat4 :: "real \<Rightarrow> vec4" where
  "splat4 s = vec4 s s s s"

definition dot3 :: "vec3 \<Rightarrow> vec3 \<Rightarrow> real" where
  "dot3 u v = x3 u * x3 v + y3 u * y3 v + z3 u * z3 v"

definition length3 :: "vec3 \<Rightarrow> real" where
  "length3 v = sqrt (dot3 v v)"

text \<open>GLSL leaves \<open>normalize\<close> of the zero vector undefined; here the division by zero is
  HOL's, so every statement about \<open>normalize3\<close> assumes a non-zero argument.\<close>

definition normalize3 :: "vec3 \<Rightarrow> vec3" where
  "normalize3 v = map3 (\<lambda>c. c / length3 v) v"

definition floorf :: "real \<Rightarrow> real" where
  "floorf x = of_int \<lfloor>x\<rfloor>"

definition fract :: "real \<Rightarrow> real" where
  "fract x = x - floorf x"

definition modf :: "real \<Rightarrow> real \<Rightarrow> real" where
  "modf x y = x - y * floorf (x / y)"

definition step :: "real \<Rightarrow> real \<Rightarrow> real" where
  "step edge x = (if x < edge then 0 else 1)"

definition mix :: "real \<Rightarrow> real \<Rightarrow> real \<Rightarrow> real" where
  "mix x y a = x * (1 - a) + y * a"

section \<open>Noise engine of the enhanced shaders\<close>

text \<open>\<open>perlinNoise\<close> of \<open>enhancedVertex.glsl\<close> and \<open>enhancedFragment.glsl\<close>: a lattice
  hash \<open>fract(sin(n) * 43758.5453)\<close> at the eight corners of the cell, blended with the
  smoothstep weights \<open>u\<close>.\<close>

definition perlinNoise :: "vec3 \<Rightarrow> real" where
  "perlinNoise pos =
    (let i = map3 floorf pos;
         f = map3 fract pos;
         u = mul3 (mul3 f f) (map3 (\<lambda>c. 3 - 2 * c) f);
         a = dot3 (map3 floorf (add3 i (vec3 0 0 0))) (vec3 1 57 21);
         b = dot3 (map3 floorf (add3 i (vec3 1 0 0))) (vec3 1 57 21);
         c = dot3 (map3 floorf (add3 i (vec3 0 1 0))) (vec3 1 57 21);
         d = dot3 (map3 floorf (add3 i (vec3 1 1 0))) (vec3 1 57 21);
         e = dot3 (map3 floorf (add3 i (vec3 0 0 1))) (vec3 1 57 21);
         f1 = dot3 (map3 floorf (add3 i (vec3 1 0 1))) (vec3 1 57 21);
         g = dot3 (map3 floorf (add3 i (vec3 0 1 1))) (vec3 1 57 21);
         h = dot3 (map3 floorf (add3 i (vec3 1 1 1))) (vec3 1 57 21)
     in mix (mix (mix (fract (sin a * 43758.5453)) (fract (sin b * 43758.5453)) (x3 u))
                 (mix (fract (sin c * 43758.5453)) (fract (sin d * 43758.5453)) (x3 u)) (y3 u))
            (mix (mix (fract (sin e * 43758.5453)) (fract (sin f1 * 43758.5453)) (x3 u))
                 (mix (fract (sin g * 43758.5453)) (fract (sin h * 43758.5453)) (x3 u)) (y3 u))
            (z3 u))"

text \<open>The loop of \<open>fractalNoise\<close>: \<open>for (int i = 0; i < octaves; i++)\<close> with the three
  accumulators \<open>noise\<close>, \<open>amp\<close> and \<open>freq\<close>.\<close>

function fractalNoise_loop :: "vec3 \<Rightarrow> real \<Rightarrow> int \<Rightarrow> int \<Rightarrow> real \<Rightarrow> real \<Rightarrow> real \<Rightarrow> real" where
  "fractalNoise_loop pos amplitude octaves i noise amp freq =
    (if i < octaves
     then fractalNoise_loop pos amplitude octaves (i + 1)
            (noise + perlinNoise (smul3 pos freq) * amp) (amp * amplitude) (freq * 2)
     else noise)"
  by pat_completeness auto
termination
  by (relation "measure (\<lambda>(pos, amplitude, octaves, i, noise, amp, freq). nat (octaves - i))") auto

definition fractalNoise :: "vec3 \<Rightarrow> real \<Rightarrow> real \<Rightarrow> int \<Rightarrow> real" where
  "fractalNoise pos frequency amplitude octaves =
    fractalNoise_loop pos amplitude octaves 0 0 1 frequency"

section \<open>Terrain classifier\<close>

text \<open>The seven terrain types, numbered as the \<open>switch\<close> of \<open>calculateEnhancedTerrain\<close>
  and the comments of \<open>classifyEnhancedTerrain\<close> number them.\<close>

datatype TerrainCategory = Ocean | Mountain | Forest | Plains | Desert | Tundra | Canyon

definition terrainCategory :: "int \<Rightarrow> TerrainCategory option" where
  "terrainCategory n =
    (if n = 0 then Some Ocean else if n = 1 then Some Mountain
     else if n = 2 then Some Forest else if n = 3 then Some Plains
     else if n = 4 then Some Desert else if n = 5 then Some Tundra
     else if n = 6 then Some Canyon else None)"

definition classifyEnhancedTerrain :: "sampler2D \<Rightarrow> vec2 \<Rightarrow> vec3 \<Rightarrow> real \<Rightarrow> int" where
  "classifyEnhancedTerrain uAlphaMap uv worldPos elevation =
    (let alpha = x4 (texture2D uAlphaMap uv) in
     if alpha < 0.5 then 0
     else
       let noisePos = smul3 worldPos 4.0;
           terrainNoise = perlinNoise noisePos;
           elevationNoise = perlinNoise (smul3 worldPos 8.0);
           terrainValue = elevation + terrainNoise * 0.3 + elevationNoise * 0.2
       in if terrainValue > 0.8 then 1
          else if terrainValue > 0.6 then 2
          else if terrainValue > 0.4 then 3
          else if terrainValue > 0.2 then 4
          else if terrainValue > 0.0 then 5
          else 6)"

section \<open>Pointer deformation (bulge)\<close>

subsection \<open>The enhanced vertex shader\<close>

definition smoothFalloff_enhanced :: "real \<Rightarrow> real \<Rightarrow> real" where
  "smoothFalloff_enhanced d radius =
    (if d \<ge> radius then 0.0
     else let normalizedDist = d / radius
          in (1.0 - normalizedDist) * (1.0 - normalizedDist))"

text \<open>\<open>uTime\<close> is a uniform of the shader; it is passed as the first argument.\<close>

definition calculateBulgeDisplacement_enhanced ::
  "real \<Rightarrow> vec3 \<Rightarrow> vec3 \<Rightarrow> vec3 \<Rightarrow> real \<Rightarrow> real \<Rightarrow> real \<Rightarrow> vec3" where
  "calculateBulgeDisplacement_enhanced uTime worldPos normal mousePos strength radius intensity =
    (let d = length3 (sub3 worldPos mousePos);
         falloff = smoothFalloff_enhanced d radius
     in if falloff \<le> 0.001 then splat3 0.0
        else
          let animationOffset = sin (uTime * 2.0) * 0.1 + 0.9;
              bulgeAmount = strength * falloff * intensity * animationOffset;
              horizontalDisplacement =
                vec3 (sin (uTime * 3.0) * 0.02) (cos (uTime * 2.5) * 0.02) (sin (uTime * 1.8) * 0.02)
          in add3 (smul3 normal bulgeAmount)
                  (smul3 (smul3 horizontalDisplacement falloff) strength))"

subsection \<open>The basic vertex shader and its periodic classic noise\<close>

definition mod289 :: "real \<Rightarrow> real" where
  "mod289 x = x - floorf (x * (1.0 / 289.0)) * 289.0"

definition permute :: "vec4 \<Rightarrow> vec4" where
  "permute x = map4 mod289 (zip4 (*) (map4 (\<lambda>c. c * 34.0 + 10.0) x) x)"

definition taylorInvSqrt :: "vec4 \<Rightarrow> vec4" where
  "taylorInvSqrt r = map4 (\<lambda>c. 1.79284291400159 - 0.85373472095314 * c) r"

definition fade :: "vec3 \<Rightarrow> vec3" where
  "fade t = map3 (\<lambda>c. c * c * c * (c * (c * 6.0 - 15.0) + 10.0)) t"

text \<open>The gradient lanes of \<open>pnoise\<close>. The shader writes this block twice, for \<open>ixy0\<close>
  (\<open>gx0\<close>, \<open>gy0\<close>, \<open>gz0\<close>) and for \<open>ixy1\<close> (\<open>gx1\<close>, \<open>gy1\<close>, \<open>gz1\<close>).\<close>

definition gradients :: "vec4 \<Rightarrow> vec4 \<times> vec4 \<times> vec4" where
  "gradients ixy =
    (let gx = map4 (\<lambda>c. c * (1.0 / 7.0)) ixy;
         gy = map4 (\<lambda>c. fract (floorf c * (1.0 / 7.0)) - 0.5) gx;
         gx = map4 fract gx;
         gz = zip4 (\<lambda>a b. 0.5 - \<bar>a\<bar> - \<bar>b\<bar>) gx gy;
         sz = map4 (\<lambda>c. step c 0.0) gz;
         gx = zip4 (\<lambda>g s. g - s * (step 0.0 g - 0.5)) gx sz;
         gy = zip4 (\<lambda>g s. g - s * (step 0.0 g - 0.5)) gy sz
     in (gx, gy, gz))"

definition pnoise :: "vec3 \<Rightarrow> vec3 \<Rightarrow> real" where
  "pnoise P rep =
    (let Pi0 = zip3 modf (map3 floorf P) rep;
         Pi1 = zip3 modf (add3 Pi0 (splat3 1.0)) rep;
         Pi0 = map3 mod289 Pi0;
         Pi1 = map3 mod289 Pi1;
         Pf0 = map3 fract P;
         Pf1 = sub3 Pf0 (splat3 1.0);
         ix = vec4 (x3 Pi0) (x3 Pi1) (x3 Pi0) (x3 Pi1);
         iy = vec4 (y3 Pi0) (y3 Pi0) (y3 Pi1) (y3 Pi1);
         iz0 = splat4 (z3 Pi0);
         iz1 = splat4 (z3 Pi1);
         ixy = permute (zip4 (+) (permute ix) iy);
         ixy0 = permute (zip4 (+) ixy iz0);
         ixy1 = permute (zip4 (+) ixy iz1);
         (gx0, gy0, gz0) = gradients ixy0;
         (gx1, gy1, gz1) = gradients ixy1;
         g000 = vec3 (x4 gx0) (x4 gy0) (x4 gz0);
         g100 = vec3 (y4 gx0) (y4 gy0) (y4 gz0);
         g010 = vec3 (z4 gx0) (z4 gy0) (z4 gz0);
         g110 = vec3 (w4 gx0) (w4 gy0) (w4 gz0);
         g001 = vec3 (x4 gx1) (x4 gy1) (x4 gz1);
         g101 = vec3 (y4 gx1) (y4 gy1) (y4 gz1);
         g011 = vec3 (z4 gx1) (z4 gy1) (z4 gz1);
         g111 = vec3 (w4 gx1) (w4 gy1) (w4 gz1);
         norm0 = taylorInvSqrt (vec4 (dot3 g000 g000) (dot3 g010 g010) (dot3 g100 g100) (dot3 g110 g110));
         g000 = smul3 g000 (x4 norm0);
         g010 = smul3 g010 (y4 norm0);
         g100 = smul3 g100 (z4 norm0);
         g110 = smul3 g110 (w4 norm0);
         norm1 = taylorInvSqrt (vec4 (dot3 g001 g001) (dot3 g011 g011) (dot3 g101 g101) (dot3 g111 g111));
         g001 = smul3 g001 (x4 norm1);
         g011 = smul3 g011 (y4 norm1);
         g101 = smul3 g101 (z4 norm1);
         g111 = smul3 g111 (w4 norm1);
         n000 = dot3 g000 Pf0;
         n100 = dot3 g100 (vec3 (x3 Pf1) (y3 Pf0) (z3 Pf0));
         n010 = dot3 g010 (vec3 (x3 Pf0) (y3 Pf1) (z3 Pf0));
         n110 = dot3 g110 (vec3 (x3 Pf1) (y3 Pf1) (z3 Pf0));
         n001 = dot3 g001 (vec3 (x3 Pf0) (y3 Pf0) (z3 Pf1));
         n101 = dot3 g101 (vec3 (x3 Pf1) (y3 Pf0) (z3 Pf1));
         n011 = dot3 g011 (vec3 (x3 Pf0) (y3 Pf1) (z3 Pf1));
         n111 = dot3 g111 Pf1;
         fade_xyz = fade Pf0;
         n_z = zip4 (\<lambda>a b. mix a b (z3 fade_xyz)) (vec4 n000 n100 n010 n110) (vec4 n001 n101 n011 n111);
         n_yz = vec2 (mix (x4 n_z) (z4 n_z) (y3 fade_xyz)) (mix (y4 n_z) (w4 n_z) (y3 fade_xyz));
         n_xyz = mix (x2 n_yz) (y2 n_yz) (x3 fade_xyz)
     in 2.2 * n_xyz)"

definition smoothFalloff_basic :: "real \<Rightarrow> real \<Rightarrow> real" where
  "smoothFalloff_basic d radius =
    (if d \<ge> radius then 0.0
     else let normalizedDist = d / radius;
              falloff = 1.0 - normalizedDist
          in falloff * falloff * falloff)"

definition calculateBulgeDisplacement_basic ::
  "real \<Rightarrow> vec3 \<Rightarrow> vec3 \<Rightarrow> vec3 \<Rightarrow> real \<Rightarrow> real \<Rightarrow> real \<Rightarrow> vec3" where
  "calculateBulgeDisplacement_basic uTime worldPos normal mousePos strength radius intensity =
    (let d = length3 (sub3 worldPos mousePos);
         falloff = smoothFalloff_basic d radius
     in if falloff \<le> 0.001 then splat3 0.0
        else
          let animationOffset = sin (uTime * 1.5) * 0.05 + 0.95;
              bulgeDirection = normalize3 normal;
              noisePos = sadd3 (smul3 worldPos 2.0) (uTime * 0.3);
              noise = pnoise noisePos (splat3 10.0) * 0.05;
              bulgeAmount = strength * falloff * intensity * animationOffset * (1.0 + noise) * 2.2
          in smul3 bulgeDirection bulgeAmount)"

section \<open>Level-of-detail manager\<close>

record lod_level =
  distance :: real
  vertices :: int
  label :: string

record LODManager =
  currentLOD :: int
  targetLOD :: int
  lodLevels :: "lod_level list"
  needsGeometryUpdate :: bool

definition LODManager_new :: LODManager where
  "LODManager_new =
    \<lparr> currentLOD = 300,
      targetLOD = 300,
      lodLevels =
        [\<lparr> distance = 15, vertices = 100, label = ''Far'' \<rparr>,
         \<lparr> distance = 10, vertices = 150, label = ''Medium'' \<rparr>,
         \<lparr> distance = 7, vertices = 200, label = ''Near'' \<rparr>,
         \<lparr> distance = 0, vertices = 300, label = ''Close'' \<rparr>],
      needsGeometryUpdate = False \<rparr>"

text \<open>The \<open>for (let level of this.lodLevels)\<close> loop of \<open>calculateOptimalLOD\<close>, with the
  \<open>return 300\<close> that follows it.\<close>

fun scanLevels :: "lod_level list \<Rightarrow> real \<Rightarrow> int" where
  "scanLevels [] cameraDistance = 300"
| "scanLevels (level # rest) cameraDistance =
    (if cameraDistance \<ge> distance level then vertices level
     else scanLevels rest cameraDistance)"

definition calculateOptimalLOD :: "LODManager \<Rightarrow> real \<Rightarrow> int" where
  "calculateOptimalLOD this cameraDistance = scanLevels (lodLevels this) cameraDistance"

text \<open>\<open>LODManager.update\<close>; \<open>cameraDistance\<close> is
  \<open>camera.position.distanceTo(earthPosition)\<close>.\<close>

definition LODManager_update :: "real \<Rightarrow> LODManager \<Rightarrow> LODManager" where
  "LODManager_update cameraDistance this =
    (let this = this\<lparr> targetLOD := calculateOptimalLOD this cameraDistance \<rparr>
     in if \<bar>targetLOD this - currentLOD this\<bar> \<ge> 50
        then this\<lparr> currentLOD := targetLOD this, needsGeometryUpdate := True \<rparr>
        else this)"


section \<open>Scene state of the driver script\<close>

text \<open>The module-level variables of the enhanced driver script, the objects they point
  to, and the part of the browser the modelled functions read: the clock, the pending
  \<open>setTimeout\<close> callbacks and the console warnings. Scene children other than the
  earth mesh (the star fields), the group's rotation and the DOM read-outs are not
  part of the state: none of the modelled functions reads them back.\<close>

record geometry =
  sphereRadius :: real
  widthSegments :: int
  heightSegments :: int

definition SphereGeometry :: "real \<Rightarrow> int \<Rightarrow> int \<Rightarrow> geometry" where
  "SphereGeometry r w h = \<lparr> sphereRadius = r, widthSegments = w, heightSegments = h \<rparr>"

record textures =
  starTexture :: string
  colorMap :: string
  elevationMap :: string
  alphaMap :: string

record uniforms =
  uTime :: real
  uSize :: real
  uElevationMap :: string
  uColorMap :: string
  uAlphaMap :: string
  uMouse :: vec3
  uBulgeStrength :: real
  uBulgeRadius :: real
  uBulgeIntensity :: real
  uWaterEffect :: real
  uTerrainDiversity :: real
  uTerrainAnimation :: real
  uSnowLine :: real
  uOceanDepth :: real
  uForestDensity :: real
  uDesertDunes :: real
  uMountainSharpness :: real
  uDetailLevel :: real
  uTerrainDensity :: real
  uAmbientLight :: real
  uDirectionalLight :: real
  uContrast :: real
  uBrightness :: real
  uSaturation :: real
  uLODLevel :: real
  uSimplifyTerrain :: real

text \<open>A \<open>THREE.ShaderMaterial\<close> has a \<open>uniforms\<close> property; a \<open>THREE.PointsMaterial\<close>
  has none, so \<open>material.uniforms\<close> is \<open>undefined\<close> there.\<close>

datatype material = ShaderMaterial uniforms | PointsMaterial (pointColor: nat) (pointSize: real)

fun material_uniforms :: "material \<Rightarrow> uniforms option" where
  "material_uniforms (ShaderMaterial u) = Some u"
| "material_uniforms (PointsMaterial c s) = None"

record mesh =
  geometry :: geometry
  material :: material

record PerformanceMonitor =
  frameCount :: int
  lastFPSUpdate :: real
  currentFPS :: int
  memoryUsage :: real
  isOptimizing :: bool

definition PerformanceMonitor_new :: PerformanceMonitor where
  "PerformanceMonitor_new =
    \<lparr> frameCount = 0, lastFPSUpdate = 0, currentFPS = 60, memoryUsage = 0, isOptimizing = False \<rparr>"

text \<open>The one \<open>setTimeout\<close> callback the modelled functions schedule:
  \<open>() => { this.isOptimizing = false; }\<close>.\<close>

datatype timeout_callback = ResetOptimizing

record globals =
  canvas :: bool
  renderer :: bool
  controls :: bool
  performanceMonitor :: PerformanceMonitor
  lodManager :: LODManager
  group_children :: "mesh list"
  mouse :: vec3
  targetMouse :: vec3
  isMouseOverEarth :: bool
  bulgeStrength :: real
  targetBulgeStrength :: real
  bulgeRadius :: real
  bulgeIntensity :: real
  lastRaycastTime :: real
  earthMesh :: "mesh option"
  lastTime :: real
  window_textures :: "textures option"
  hoverTracking :: bool
  disposed :: "geometry list"
  timeouts :: "(real \<times> timeout_callback) list"
  warnings :: "int list"

definition globals_new :: globals where
  "globals_new =
    \<lparr> canvas = False, renderer = False, controls = False,
      performanceMonitor = PerformanceMonitor_new,
      lodManager = LODManager_new,
      group_children = [],
      mouse = vec3 0 0 0, targetMouse = vec3 0 0 0,
      isMouseOverEarth = False,
      bulgeStrength = 0.0, targetBulgeStrength = 0.0,
      bulgeRadius = 0.9, bulgeIntensity = 0.3,
      lastRaycastTime = 0,
      earthMesh = None,
      lastTime = 0,
      window_textures = None,
      hoverTracking = False,
      disposed = [], timeouts = [], warnings = [] \<rparr>"

text \<open>\<open>earthMesh.material.uniforms.uTerrainDiversity.value = f(old value)\<close>, behind the
  guard \<open>earthMesh && earthMesh.material && earthMesh.material.uniforms\<close>.\<close>

definition update_uniforms :: "(uniforms \<Rightarrow> uniforms) \<Rightarrow> globals \<Rightarrow> globals" where
  "update_uniforms f g =
    (case earthMesh g of
       None \<Rightarrow> g
     | Some m \<Rightarrow>
        (case material_uniforms (material m) of
           None \<Rightarrow> g
         | Some u \<Rightarrow> g\<lparr> earthMesh := Some (m\<lparr> material := ShaderMaterial (f u) \<rparr>) \<rparr>))"

definition terrainDiversity :: "globals \<Rightarrow> real option" where
  "terrainDiversity g =
    (case earthMesh g of
       None \<Rightarrow> None
     | Some m \<Rightarrow> map_option uTerrainDiversity (material_uniforms (material m)))"

section \<open>Performance monitor\<close>

definition triggerOptimization :: "real \<Rightarrow> globals \<Rightarrow> globals" where
  "triggerOptimization now g =
    (let g = g\<lparr> warnings := warnings g @ [currentFPS (performanceMonitor g)] \<rparr>;
         g = g\<lparr> performanceMonitor := (performanceMonitor g)\<lparr> isOptimizing := True \<rparr> \<rparr>;
         g = update_uniforms (\<lambda>u. u\<lparr> uTerrainDiversity := uTerrainDiversity u * 0.7 \<rparr>) g
     in g\<lparr> timeouts := timeouts g @ [(now + 3000, ResetOptimizing)] \<rparr>)"

text \<open>\<open>PerformanceMonitor.update\<close>. \<open>now\<close> is the value \<open>performance.now()\<close> returns and
  \<open>heap\<close> is \<open>window.performance.memory.usedJSHeapSize\<close> where the browser has it. The
  call \<open>window.neuraalInterface.updateDataStreams()\<close> only refreshes the side panel and
  is left out.\<close>

definition PerformanceMonitor_update :: "real \<Rightarrow> real option \<Rightarrow> globals \<Rightarrow> globals" where
  "PerformanceMonitor_update now heap g =
    (let g = g\<lparr> performanceMonitor :=
                 (performanceMonitor g)\<lparr> frameCount := frameCount (performanceMonitor g) + 1 \<rparr> \<rparr>
     in if now - lastFPSUpdate (performanceMonitor g) \<ge> 1000
        then
          let g = g\<lparr> performanceMonitor :=
                       (performanceMonitor g)\<lparr> currentFPS := frameCount (performanceMonitor g),
                                               frameCount := 0,
                                               lastFPSUpdate := now \<rparr> \<rparr>;
              g = (if currentFPS (performanceMonitor g) < 45 \<and> \<not> isOptimizing (performanceMonitor g)
                   then triggerOptimization now g else g)
          in (case heap of
                None \<Rightarrow> g
              | Some used \<Rightarrow>
                  g\<lparr> performanceMonitor :=
                       (performanceMonitor g)\<lparr> memoryUsage := used / 1024 / 1024 \<rparr> \<rparr>)
        else g)"

text \<open>The browser runs a \<open>setTimeout\<close> callback once its delay has passed.\<close>

fun runCallback :: "timeout_callback \<Rightarrow> globals \<Rightarrow> globals" where
  "runCallback ResetOptimizing g =
    g\<lparr> performanceMonitor := (performanceMonitor g)\<lparr> isOptimizing := False \<rparr> \<rparr>"

definition runTimeouts :: "real \<Rightarrow> globals \<Rightarrow> globals" where
  "runTimeouts now g =
    (let due = filter (\<lambda>tc. fst tc \<le> now) (timeouts g);
         rest = filter (\<lambda>tc. \<not> fst tc \<le> now) (timeouts g)
     in fold (\<lambda>tc. runCallback (snd tc)) due (g\<lparr> timeouts := rest \<rparr>))"

text \<open>A run of the monitor over the frames at the times \<open>ts\<close>: before each frame the
  callbacks that are due run, then the frame calls \<open>update\<close>.\<close>

fun monitorFrames :: "real list \<Rightarrow> globals \<Rightarrow> globals" where
  "monitorFrames [] g = g"
| "monitorFrames (t # ts) g = monitorFrames ts (PerformanceMonitor_update t None (runTimeouts t g))"

section \<open>Level of detail in the frame loop\<close>

definition createGeometry :: "LODManager \<Rightarrow> geometry \<times> LODManager" where
  "createGeometry this =
    (SphereGeometry 2.75 (currentLOD this) (currentLOD this), this\<lparr> needsGeometryUpdate := False \<rparr>)"

text \<open>Lines 846 to 853 of \<open>animate\<close>: the LOD update and the geometry swap that follows
  it in the same call. \<open>cameraDistance\<close> is the distance from the camera to the group.\<close>

definition animate_lod :: "real \<Rightarrow> globals \<Rightarrow> globals" where
  "animate_lod cameraDistance g =
    (let g = g\<lparr> lodManager := LODManager_update cameraDistance (lodManager g) \<rparr>
     in case earthMesh g of
          None \<Rightarrow> g
        | Some m \<Rightarrow>
            if needsGeometryUpdate (lodManager g)
            then
              let (newGeometry, lm) = createGeometry (lodManager g)
              in g\<lparr> lodManager := lm,
                    disposed := disposed g @ [geometry m],
                    earthMesh := Some (m\<lparr> geometry := newGeometry \<rparr>) \<rparr>
            else g)"

definition lerp :: "real \<Rightarrow> real \<Rightarrow> real \<Rightarrow> real" where
  "lerp start end' factor = start + (end' - start) * factor"

definition smoothInterpolation :: "real \<Rightarrow> real \<Rightarrow> real \<Rightarrow> real \<Rightarrow> real" where
  "smoothInterpolation current target deltaTime speed =
    (let factor = min 1.0 (1.0 - exp (- speed * deltaTime))
     in lerp current target factor)"

text \<open>\<open>animate\<close> up to the draw call. \<open>currentTime\<close> is the frame timestamp, \<open>now\<close> and
  \<open>heap\<close> are what the performance monitor reads.\<close>

definition animate :: "real \<Rightarrow> real \<Rightarrow> real option \<Rightarrow> real \<Rightarrow> globals \<Rightarrow> globals" where
  "animate currentTime now heap cameraDistance g =
    (let deltaTime = min ((currentTime - lastTime g) * 0.001) 0.016;
         g = g\<lparr> lastTime := currentTime \<rparr>;
         g = PerformanceMonitor_update now heap g
     in if \<not> renderer g then g
        else
          let g = animate_lod cameraDistance g
          in case earthMesh g of
               None \<Rightarrow> g
             | Some m \<Rightarrow>
                 (case material_uniforms (material m) of
                    None \<Rightarrow> g
                  | Some u \<Rightarrow>
                      let g = g\<lparr> mouse :=
                                  vec3 (smoothInterpolation (x3 (mouse g)) (x3 (targetMouse g)) deltaTime 10.0)
                                       (smoothInterpolation (y3 (mouse g)) (y3 (targetMouse g)) deltaTime 10.0)
                                       (smoothInterpolation (z3 (mouse g)) (z3 (targetMouse g)) deltaTime 10.0) \<rparr>;
                          g = g\<lparr> bulgeStrength :=
                                  smoothInterpolation (bulgeStrength g) (targetBulgeStrength g) deltaTime 8.0 \<rparr>
                      in update_uniforms
                           (\<lambda>u. u\<lparr> uTime := uTime u + 0.015,
                                   uMouse := mouse g,
                                   uBulgeStrength := bulgeStrength g,
                                   uBulgeRadius := bulgeRadius g,
                                   uBulgeIntensity := bulgeIntensity g,
                                   uLODLevel := real_of_int (currentLOD (lodManager g)) / 300 \<rparr>) g))"

section \<open>Hover tracking\<close>

record DOMRect =
  rect_left :: real
  rect_top :: real
  rect_width :: real
  rect_height :: real

definition RAYCAST_THROTTLE :: real where
  "RAYCAST_THROTTLE = 16"

text \<open>\<open>updateHoverPosition\<close>. The three.js calls are parameters: \<open>raycast ndc geo\<close> is the
  list of world-space intersection points of \<open>raycaster.intersectObject(earthMesh)\<close> for
  the ray through the normalised device coordinates \<open>ndc\<close> and the mesh's geometry
  \<open>geo\<close>, nearest first, and
  \<open>worldToLocal\<close> is \<open>group.worldToLocal\<close>. \<open>rect\<close> is the canvas's bounding rectangle and
  \<open>currentTime\<close> the value of \<open>performance.now()\<close>.\<close>

definition updateHoverPosition ::
  "(vec2 \<Rightarrow> geometry \<Rightarrow> vec3 list) \<Rightarrow> (vec3 \<Rightarrow> vec3) \<Rightarrow> DOMRect \<Rightarrow> real \<Rightarrow> real \<Rightarrow> real \<Rightarrow> globals \<Rightarrow> globals" where
  "updateHoverPosition raycast worldToLocal rect currentTime clientX clientY g =
    (if currentTime - lastRaycastTime g < RAYCAST_THROTTLE then g
     else
       let g = g\<lparr> lastRaycastTime := currentTime \<rparr>
       in case earthMesh g of
            None \<Rightarrow> g
          | Some m \<Rightarrow>
              let x = clientX - rect_left rect;
                  y = clientY - rect_top rect;
                  canvasWidth = rect_width rect;
                  canvasHeight = rect_height rect;
                  mouseNDC = vec2 ((x / canvasWidth) * 2 - 1) (- (y / canvasHeight) * 2 + 1);
                  intersects = raycast mouseNDC (geometry m)
              in (case intersects of
                    intersectionPoint # others \<Rightarrow>
                      let localPoint = worldToLocal intersectionPoint;
                          g = g\<lparr> targetMouse := localPoint,
                                 targetBulgeStrength := 1.0,
                                 isMouseOverEarth := True \<rparr>
                      in update_uniforms (\<lambda>u. u\<lparr> uTerrainDiversity := 1.5 \<rparr>) g
                  | [] \<Rightarrow>
                      let g = g\<lparr> targetBulgeStrength := 0.0, isMouseOverEarth := False \<rparr>
                      in update_uniforms (\<lambda>u. u\<lparr> uTerrainDiversity := 1.0 \<rparr>) g))"

text \<open>The \<open>mouseleave\<close> listener of \<open>setupHoverTracking\<close>.\<close>

definition mouseleave :: "globals \<Rightarrow> globals" where
  "mouseleave g = g\<lparr> targetBulgeStrength := 0.0, isMouseOverEarth := False \<rparr>"

section \<open>Initialisation and the fallback mesh\<close>

datatype error =
  CanvasNotFound | RendererSetupFailed | ControlsSetupFailed | WebGLUnavailable
  | TextureLoadError | ShaderMaterialError

datatype texture_event = Loaded | Failed

datatype promise = Pending | Resolved | Rejected error

text \<open>What the browser does during one run of \<open>init\<close>: \<open>canvasAt i\<close> says whether the
  \<open>i\<close>-th poll of \<open>document.querySelector("canvas.webgl")\<close> finds the canvas, \<open>webgl\<close>
  whether \<open>new THREE.WebGLRenderer\<close> gets a context, \<open>textureEvents\<close> lists the callbacks
  of the four \<open>textureLoader.load\<close> calls in the order they arrive, \<open>loadedTextures\<close> is
  the object the promise resolves with, and \<open>shaderMaterial\<close> says whether
  \<open>new THREE.ShaderMaterial\<close> returns.\<close>

record env =
  canvasAt :: "nat \<Rightarrow> bool"
  webgl :: bool
  textureEvents :: "texture_event list"
  loadedTextures :: textures
  shaderMaterial :: bool

text \<open>The \<open>while (!waitForCanvas())\<close> loop of \<open>init\<close>; \<open>None\<close> is the normal exit.\<close>

function waitForCanvas_loop :: "(nat \<Rightarrow> bool) \<Rightarrow> nat \<Rightarrow> error option" where
  "waitForCanvas_loop found canvasWaitCount =
    (if found canvasWaitCount then None
     else if canvasWaitCount + 1 > 50 then Some CanvasNotFound
     else waitForCanvas_loop found (canvasWaitCount + 1))"
  by pat_completeness auto
termination
  by (relation "measure (\<lambda>(found, canvasWaitCount). 51 - canvasWaitCount)") auto

record loader =
  loadedCount :: nat
  hasError :: bool
  settled :: promise

text \<open>A promise settles once: a later \<open>resolve\<close> or \<open>reject\<close> changes nothing.\<close>

definition settle :: "promise \<Rightarrow> loader \<Rightarrow> loader" where
  "settle p l = (if settled l = Pending then l\<lparr> settled := p \<rparr> else l)"

definition checkAllLoaded :: "loader \<Rightarrow> loader" where
  "checkAllLoaded l =
    (let l = l\<lparr> loadedCount := loadedCount l + 1 \<rparr>
     in if loadedCount l = 4 \<and> \<not> hasError l then settle Resolved l else l)"

definition handleError :: "loader \<Rightarrow> loader" where
  "handleError l =
    (if \<not> hasError l then settle (Rejected TextureLoadError) (l\<lparr> hasError := True \<rparr>) else l)"

fun texture_callback :: "texture_event \<Rightarrow> loader \<Rightarrow> loader" where
  "texture_callback Loaded l = checkAllLoaded l"
| "texture_callback Failed l = handleError l"

definition loadTextures :: "texture_event list \<Rightarrow> promise" where
  "loadTextures events =
    settled (fold texture_callback events \<lparr> loadedCount = 0, hasError = False, settled = Pending \<rparr>)"

definition setupRenderer :: "env \<Rightarrow> globals \<Rightarrow> (error \<times> globals) + (bool \<times> globals)" where
  "setupRenderer e g =
    (if \<not> canvas g then Inr (False, g)
     else if \<not> webgl e then Inl (WebGLUnavailable, g)
     else Inr (True, g\<lparr> renderer := True \<rparr>))"

definition setupControls :: "globals \<Rightarrow> bool \<times> globals" where
  "setupControls g = (if \<not> canvas g then (False, g) else (True, g\<lparr> controls := True \<rparr>))"

definition enhancedUniforms :: "textures \<Rightarrow> globals \<Rightarrow> uniforms" where
  "enhancedUniforms t g =
    \<lparr> uTime = 0.0, uSize = 1.2,
      uElevationMap = elevationMap t, uColorMap = colorMap t, uAlphaMap = alphaMap t,
      uMouse = vec3 0 0 0,
      uBulgeStrength = 0.0, uBulgeRadius = bulgeRadius g, uBulgeIntensity = bulgeIntensity g,
      uWaterEffect = 0.3,
      uTerrainDiversity = 1.0, uTerrainAnimation = 1.0,
      uSnowLine = 0.7, uOceanDepth = 1.0, uForestDensity = 1.0, uDesertDunes = 1.0,
      uMountainSharpness = 1.0,
      uDetailLevel = 1.0, uTerrainDensity = 1.5,
      uAmbientLight = 0.7, uDirectionalLight = 1.0,
      uContrast = 1.4, uBrightness = 1.5, uSaturation = 1.3,
      uLODLevel = 1.0, uSimplifyTerrain = 0.0 \<rparr>"

text \<open>\<open>createEarthMesh\<close>: the geometry of the LOD manager, the shader material (the
  constructor call sits in a \<open>try\<close> whose \<open>catch\<close> rethrows), the mesh added to the group,
  and the hover listeners installed by \<open>setupHoverTracking\<close>. The keyboard listeners and
  the star fields it adds afterwards touch nothing the state holds.\<close>

definition createEarthMesh :: "env \<Rightarrow> textures \<Rightarrow> globals \<Rightarrow> (error \<times> globals) + globals" where
  "createEarthMesh e t g =
    (let (pointsGeometry, lm) = createGeometry (lodManager g);
         g = g\<lparr> lodManager := lm \<rparr>
     in if \<not> shaderMaterial e then Inl (ShaderMaterialError, g)
        else
          let pointsMaterial = ShaderMaterial (enhancedUniforms t g);
              m = \<lparr> geometry = pointsGeometry, material = pointsMaterial \<rparr>
          in Inr (g\<lparr> earthMesh := Some m,
                      group_children := group_children g @ [m],
                      hoverTracking := True \<rparr>))"

definition basicEarthMesh :: mesh where
  "basicEarthMesh =
    \<lparr> geometry = SphereGeometry 2.75 200 200,
      material = PointsMaterial 0x4a90e2 1.0 \<rparr>"

definition createBasicEarthMesh :: "globals \<Rightarrow> globals" where
  "createBasicEarthMesh g =
    g\<lparr> earthMesh := Some basicEarthMesh, group_children := group_children g @ [basicEarthMesh] \<rparr>"

text \<open>How a run of \<open>init\<close> ends when no exception leaves it: the frame loop was started,
  the \<open>catch\<close> block built the fallback mesh after the error it caught, or \<open>init\<close> is still
  suspended at \<open>await loadTextures()\<close>.\<close>

datatype init_outcome = Started | FellBack error | Suspended

text \<open>The \<open>try\<close> block of \<open>init\<close>. \<open>Inl (e, g)\<close> is the exception \<open>e\<close> thrown in state \<open>g\<close>.
  The block ends with \<open>animate(0)\<close>, which starts the frame loop; its frames are the
  functions \<open>animate\<close> and \<open>monitorFrames\<close> above.\<close>

definition init_try :: "env \<Rightarrow> globals \<Rightarrow> (error \<times> globals) + (init_outcome \<times> globals)" where
  "init_try e g =
    (case waitForCanvas_loop (canvasAt e) 0 of
       Some err \<Rightarrow> Inl (err, g)
     | None \<Rightarrow>
        let g = g\<lparr> canvas := True \<rparr>
        in case setupRenderer e g of
             Inl thrown \<Rightarrow> Inl thrown
           | Inr (False, g) \<Rightarrow> Inl (RendererSetupFailed, g)
           | Inr (True, g) \<Rightarrow>
               (case setupControls g of
                  (False, g) \<Rightarrow> Inl (ControlsSetupFailed, g)
                | (True, g) \<Rightarrow>
                    (case loadTextures (textureEvents e) of
                       Pending \<Rightarrow> Inr (Suspended, g)
                     | Rejected err \<Rightarrow> Inl (err, g)
                     | Resolved \<Rightarrow>
                         let g = g\<lparr> window_textures := Some (loadedTextures e) \<rparr>
                         in case createEarthMesh e (loadedTextures e) g of
                              Inl thrown \<Rightarrow> Inl thrown
                            | Inr g \<Rightarrow> Inr (Started, g))))"

text \<open>\<open>init\<close>: the \<open>try\<close> block and its \<open>catch\<close>, which logs the error and calls
  \<open>createBasicEarthMesh\<close>. An exception that left \<open>init\<close> would be an \<open>Inl\<close>.\<close>

definition init :: "env \<Rightarrow> globals \<Rightarrow> (error \<times> globals) + (init_outcome \<times> globals)" where
  "init e g =
    (case init_try e g of
       Inl (err, g) \<Rightarrow> Inr (FellBack err, createBasicEarthMesh g)
     | Inr r \<Rightarrow> Inr r)"

section \<open>A scene to run the functions on\<close>

text \<open>A browser in which everything succeeds, and the scene \<open>init\<close> builds in it from
  the initial module state.\<close>

definition demoEnv :: env where
  "demoEnv =
    \<lparr> canvasAt = (\<lambda>i. True), webgl = True,
      textureEvents = [Loaded, Loaded, Loaded, Loaded],
      loadedTextures = \<lparr> starTexture = ''/circle.png'', colorMap = ''/earthmap1k.jpg'',
                         elevationMap = ''/earthbump1k.jpg'', alphaMap = ''/earthspec1k.jpg'' \<rparr>,
      shaderMaterial = True \<rparr>"

definition readyScene :: globals where
  "readyScene = (case init demoEnv globals_new of Inl (err, g) \<Rightarrow> g | Inr (outcome, g) \<Rightarrow> g)"

section \<open>Helpers of the proofs\<close>

definition bounded4 :: "real \<Rightarrow> vec4 \<Rightarrow> bool" where
  "bounded4 B v = (\<bar>x4 v\<bar> \<le> B \<and> \<bar>y4 v\<bar> \<le> B \<and> \<bar>z4 v\<bar> \<le> B \<and> \<bar>w4 v\<bar> \<le> B)"

lemma scanLevels_find:
  "scanLevels ls d = (case find (\<lambda>l. distance l \<le> d) ls of Some l \<Rightarrow> vertices l | None \<Rightarrow> 300)"
  by (induction ls) auto

section \<open>Noise engine: the octave sum\<close>

declare fractalNoise_loop.simps [simp del]

lemma fractalNoise_loop_sum:
  "i \<le> octaves \<Longrightarrow>
   fractalNoise_loop pos a octaves i noise amp freq =
     noise + (\<Sum>k = 0..<nat (octaves - i). perlinNoise (smul3 pos (freq * 2 ^ k)) * (amp * a ^ k))"
proof (induction pos a octaves i noise amp freq rule: fractalNoise_loop.induct)
  case (1 pos amplitude octaves i noise amp freq)
  show ?case
  proof (cases "i < octaves")
    case True
    then have n: "nat (octaves - i) = Suc (nat (octaves - (i + 1)))" by simp
    have "fractalNoise_loop pos amplitude octaves i noise amp freq =
          fractalNoise_loop pos amplitude octaves (i + 1)
            (noise + perlinNoise (smul3 pos freq) * amp) (amp * amplitude) (freq * 2)"
      using True by (subst fractalNoise_loop.simps) simp
    also have "\<dots> = noise + perlinNoise (smul3 pos freq) * amp +
        (\<Sum>k = 0..<nat (octaves - (i + 1)).
           perlinNoise (smul3 pos (freq * 2 * 2 ^ k)) * (amp * amplitude * amplitude ^ k))"
      using "1.IH" [OF True] True by simp
    also have "\<dots> = noise +
        (\<Sum>k = 0..<Suc (nat (octaves - (i + 1))).
           perlinNoise (smul3 pos (freq * 2 ^ k)) * (amp * amplitude ^ k))"
      by (simp add: sum.atLeast0_lessThan_Suc_shift mult.assoc del: sum.op_ivl_Suc)
    finally show ?thesis using n by simp
  next
    case False
    with "1.prems" have "i = octaves" by simp
    then show ?thesis by (subst fractalNoise_loop.simps) simp
  qed
qed

lemma smul3_smul3: "smul3 (smul3 p a) b = smul3 p (a * b)"
  by (simp add: smul3_def map3_def mult.assoc)

text \<open>
  Claim C8. For every position \<open>p\<close>, base frequency \<open>f\<close>, persistence \<open>a\<close> and octave
  count \<open>n \<ge> 0\<close>, \<open>fractalNoise p f a n\<close> is the sum over \<open>i\<close> from \<open>0\<close> to \<open>n - 1\<close> of
  \<open>perlinNoise (p * f * 2^i) * a^i\<close>: \<open>n\<close> octaves of the base noise at doubling frequency,
  the amplitude decaying geometrically by the persistence.
\<close>

theorem fractalNoise_octave_sum:
  "0 \<le> n \<Longrightarrow>
   fractalNoise p f a n = (\<Sum>i = 0..<nat n. perlinNoise (smul3 (smul3 p f) (2 ^ i)) * a ^ i)"
  unfolding fractalNoise_def
  by (subst fractalNoise_loop_sum) (simp_all add: smul3_smul3)

theorem fractalNoise_octave_sum_witness:
  "(0::int) \<le> 3 \<and>
   fractalNoise (vec3 0 0 0) 1 (1/2) 3 =
     (\<Sum>i = 0..<nat 3. perlinNoise (smul3 (smul3 (vec3 0 0 0) 1) (2 ^ i)) * (1/2) ^ i)"
  using fractalNoise_octave_sum [of 3 "vec3 0 0 0" 1 "1/2"] by simp

section \<open>Terrain classifier: the threshold ladder\<close>

text \<open>
  Claim C1. If the land-mask value sampled at the texture coordinate is below \<open>0.5\<close> the
  classifier returns Ocean whatever the elevation; otherwise it computes
  \<open>terrainValue = elevation + 0.3 * noise (4 * position) + 0.2 * noise (8 * position)\<close>
  and returns Mountain above \<open>0.8\<close>, else Forest above \<open>0.6\<close>, else Plains above \<open>0.4\<close>,
  else Desert above \<open>0.2\<close>, else Tundra above \<open>0.0\<close>, else Canyon. The result is always
  the number of one of the seven categories.
\<close>

theorem classifyEnhancedTerrain_ladder:
  "terrainCategory (classifyEnhancedTerrain landMask uv worldPos elevation) =
     Some (if x4 (texture2D landMask uv) < 0.5 then Ocean
           else let terrainValue = elevation + 0.3 * perlinNoise (smul3 worldPos 4)
                                             + 0.2 * perlinNoise (smul3 worldPos 8)
                in if terrainValue > 0.8 then Mountain
                   else if terrainValue > 0.6 then Forest
                   else if terrainValue > 0.4 then Plains
                   else if terrainValue > 0.2 then Desert
                   else if terrainValue > 0.0 then Tundra
                   else Canyon)"
  by (simp add: classifyEnhancedTerrain_def terrainCategory_def Let_def mult.commute)

lemma perlinNoise_origin: "perlinNoise (vec3 0 0 0) = 0"
  by (simp add: perlinNoise_def map3_def mul3_def zip3_def add3_def dot3_def floorf_def fract_def
      mix_def Let_def)

theorem classifyEnhancedTerrain_ladder_witness:
  "terrainCategory (classifyEnhancedTerrain (\<lambda>uv. vec4 0 0 0 1) (vec2 0 0) (vec3 0 0 0) 0.9) = Some Ocean
   \<and> terrainCategory (classifyEnhancedTerrain (\<lambda>uv. vec4 1 1 1 1) (vec2 0 0) (vec3 0 0 0) 0.9) = Some Mountain
   \<and> terrainCategory (classifyEnhancedTerrain (\<lambda>uv. vec4 1 1 1 1) (vec2 0 0) (vec3 0 0 0) 0.5) = Some Plains
   \<and> terrainCategory (classifyEnhancedTerrain (\<lambda>uv. vec4 1 1 1 1) (vec2 0 0) (vec3 0 0 0) (- 1)) = Some Canyon"
  using classifyEnhancedTerrain_ladder [of "\<lambda>uv. vec4 0 0 0 1" "vec2 0 0" "vec3 0 0 0" "0.9"]
    classifyEnhancedTerrain_ladder [of "\<lambda>uv. vec4 1 1 1 1" "vec2 0 0" "vec3 0 0 0" "0.9"]
    classifyEnhancedTerrain_ladder [of "\<lambda>uv. vec4 1 1 1 1" "vec2 0 0" "vec3 0 0 0" "0.5"]
    classifyEnhancedTerrain_ladder [of "\<lambda>uv. vec4 1 1 1 1" "vec2 0 0" "vec3 0 0 0" "- 1"]
  by (simp add: texture2D_def smul3_def map3_def perlinNoise_origin)

section \<open>Bounds of the periodic classic noise\<close>

lemma fract_ge_0: "0 \<le> fract x"
  by (simp add: fract_def floorf_def)

lemma fract_lt_1: "fract x < 1"
  unfolding fract_def floorf_def by linarith

lemma gradient_lane_bound:
  fixes c :: real
  defines "gx \<equiv> fract (c * (1.0 / 7.0))"
    and "gy \<equiv> fract (floorf (c * (1.0 / 7.0)) * (1.0 / 7.0)) - 0.5"
  defines "gz \<equiv> 0.5 - \<bar>gx\<bar> - \<bar>gy\<bar>"
  defines "sz \<equiv> step gz 0.0"
  shows "\<bar>gx - sz * (step 0.0 gx - 0.5)\<bar> \<le> 1"
    and "\<bar>gy - sz * (step 0.0 gy - 0.5)\<bar> \<le> 1"
    and "\<bar>gz\<bar> \<le> 1"
proof -
  have gx: "0 \<le> gx" "gx < 1"
    unfolding gx_def by (rule fract_ge_0, rule fract_lt_1)
  have gy: "- 0.5 \<le> gy" "gy < 0.5"
    unfolding gy_def
    using fract_ge_0 [of "floorf (c * (1.0 / 7.0)) * (1.0 / 7.0)"]
      fract_lt_1 [of "floorf (c * (1.0 / 7.0)) * (1.0 / 7.0)"]
    by simp_all
  show "\<bar>gx - sz * (step 0.0 gx - 0.5)\<bar> \<le> 1"
    using gx by (auto simp: sz_def step_def abs_le_iff)
  show "\<bar>gy - sz * (step 0.0 gy - 0.5)\<bar> \<le> 1"
    using gy by (auto simp: sz_def step_def abs_le_iff)
  show "\<bar>gz\<bar> \<le> 1"
    using gx gy by (auto simp: gz_def abs_le_iff)
qed

lemma gradients_bounded:
  "bounded4 1 (fst (gradients ixy))"
  "bounded4 1 (fst (snd (gradients ixy)))"
  "bounded4 1 (snd (snd (gradients ixy)))"
  unfolding gradients_def Let_def fst_conv snd_conv bounded4_def zip4_def map4_def vec4.sel
  by (intro conjI gradient_lane_bound)+

lemma taylor_bound:
  fixes a b c :: real
  assumes "\<bar>a\<bar> \<le> 1" "\<bar>b\<bar> \<le> 1" "\<bar>c\<bar> \<le> 1"
  shows "\<bar>1.79284291400159 - 0.85373472095314 * (a * a + b * b + c * c)\<bar> \<le> 1.8"
proof -
  define s where "s = a * a + b * b + c * c"
  have "a * a \<le> 1" "b * b \<le> 1" "c * c \<le> 1"
    using assms by (simp_all add: abs_le_square_iff [of _ 1, simplified] power2_eq_square [symmetric])
  moreover have "0 \<le> a * a" "0 \<le> b * b" "0 \<le> c * c"
    by (rule zero_le_square)+
  ultimately have "0 \<le> s" "s \<le> 3"
    unfolding s_def by linarith+
  then have "\<bar>1.79284291400159 - 0.85373472095314 * s\<bar> \<le> 1.8"
    by (intro abs_leI) simp_all
  then show ?thesis unfolding s_def .
qed

lemma prod3_bound:
  fixes g n p :: real
  assumes "\<bar>g\<bar> \<le> 1" "\<bar>n\<bar> \<le> 1.8" "\<bar>p\<bar> \<le> 1"
  shows "\<bar>g * n * p\<bar> \<le> 1.8"
proof -
  have "\<bar>g\<bar> * \<bar>n\<bar> \<le> 1 * 1.8"
    using assms by (intro mult_mono) simp_all
  then have "\<bar>g\<bar> * \<bar>n\<bar> * \<bar>p\<bar> \<le> 1.8 * 1"
    using assms by (intro mult_mono) simp_all
  then show ?thesis by (simp add: abs_mult)
qed

lemma corner_bound:
  assumes "\<bar>x3 g\<bar> \<le> 1" "\<bar>y3 g\<bar> \<le> 1" "\<bar>z3 g\<bar> \<le> 1" "\<bar>x3 p\<bar> \<le> 1" "\<bar>y3 p\<bar> \<le> 1" "\<bar>z3 p\<bar> \<le> 1"
  shows "\<bar>dot3 (smul3 g (1.79284291400159 - 0.85373472095314 * dot3 g g)) p\<bar> \<le> 5.4"
proof -
  let ?n = "1.79284291400159 - 0.85373472095314 * (x3 g * x3 g + y3 g * y3 g + z3 g * z3 g)"
  have n: "\<bar>?n\<bar> \<le> 1.8" using assms by (intro taylor_bound)
  have "\<bar>x3 g * ?n * x3 p\<bar> \<le> 1.8" "\<bar>y3 g * ?n * y3 p\<bar> \<le> 1.8" "\<bar>z3 g * ?n * z3 p\<bar> \<le> 1.8"
    using prod3_bound [OF assms(1) n assms(4)] prod3_bound [OF assms(2) n assms(5)]
      prod3_bound [OF assms(3) n assms(6)] by simp_all
  then have "\<bar>x3 g * ?n * x3 p + y3 g * ?n * y3 p + z3 g * ?n * z3 p\<bar> \<le> 5.4"
    by linarith
  then show ?thesis
    by (simp add: dot3_def smul3_def map3_def)
qed

lemma mix_abs_le:
  assumes "0 \<le> a" "a \<le> 1" "\<bar>x\<bar> \<le> B" "\<bar>y\<bar> \<le> B"
  shows "\<bar>mix x y a\<bar> \<le> B"
proof -
  have "\<bar>x * (1 - a)\<bar> \<le> B * (1 - a)" "\<bar>y * a\<bar> \<le> B * a"
    using assms by (simp_all add: abs_mult mult_right_mono)
  then have "\<bar>x * (1 - a) + y * a\<bar> \<le> B * (1 - a) + B * a" by linarith
  then show ?thesis by (simp add: mix_def algebra_simps)
qed

lemma fade_lane_bounds:
  fixes c :: real
  assumes "0 \<le> c" "c \<le> 1"
  shows "0 \<le> c * c * c * (c * (c * 6.0 - 15.0) + 10.0)" "c * c * c * (c * (c * 6.0 - 15.0) + 10.0) \<le> 1"
proof -
  have q: "c * (c * 6 - 15) + 10 = 6 * ((c - 5 / 4) * (c - 5 / 4)) + 5 / 8"
    by (simp add: algebra_simps)
  have sq: "0 \<le> (c - 5 / 4) * (c - 5 / 4)" by (rule zero_le_square)
  have q0: "0 \<le> c * (c * 6 - 15) + 10" using q sq by linarith
  have "0 \<le> c * c * c * (c * (c * 6 - 15) + 10)"
    using assms q0 by (intro mult_nonneg_nonneg) simp_all
  then show "0 \<le> c * c * c * (c * (c * 6.0 - 15.0) + 10.0)" by simp
  have e: "1 - c * c * c * (c * (c * 6 - 15) + 10) = (1 - c) * (1 - c) * (1 - c) * (6 * c * c + 3 * c + 1)"
    by (simp add: algebra_simps)
  have "0 \<le> (1 - c) * (1 - c) * (1 - c) * (6 * c * c + 3 * c + 1)"
    using assms by (intro mult_nonneg_nonneg add_nonneg_nonneg) simp_all
  then have "c * c * c * (c * (c * 6 - 15) + 10) \<le> 1"
    using e by linarith
  then show "c * c * c * (c * (c * 6.0 - 15.0) + 10.0) \<le> 1" by simp
qed

lemma scale_bound: "\<bar>x\<bar> \<le> 5.4 \<Longrightarrow> \<bar>2.2 * x\<bar> \<le> (12::real)"
  by (auto simp: abs_if split: if_splits)

lemma fract_unit: "0 \<le> fract x" "fract x \<le> 1" "\<bar>fract x\<bar> \<le> 1" "\<bar>fract x - 1.0\<bar> \<le> 1"
  using fract_ge_0 [of x] fract_lt_1 [of x] by simp_all

lemma pnoise_bound: "\<bar>pnoise P rep\<bar> \<le> 12"
  unfolding pnoise_def Let_def split_def
  unfolding taylorInvSqrt_def map4_def zip4_def vec4.sel vec2.sel fade_def map3_def sub3_def zip3_def splat3_def
    vec3.sel
  apply (rule scale_bound)
  apply (intro mix_abs_le corner_bound fade_lane_bounds fract_unit)
  using gradients_bounded [unfolded bounded4_def]
  apply (simp_all only: vec3.sel fract_unit)
  done

section \<open>Bulge falloff\<close>

lemma smoothFalloff_enhanced_max:
  "0 < r \<Longrightarrow> smoothFalloff_enhanced d r = (max 0 (1 - d / r))\<^sup>2"
  by (auto simp: smoothFalloff_enhanced_def Let_def power2_eq_square max_def field_simps)

lemma smoothFalloff_basic_max:
  "0 < r \<Longrightarrow> smoothFalloff_basic d r = (max 0 (1 - d / r)) ^ 3"
  by (auto simp: smoothFalloff_basic_def Let_def power3_eq_cube max_def field_simps)

lemma ramp_antimono:
  fixes r :: real
  assumes "0 < r" "d \<le> d'"
  shows "max 0 (1 - d' / r) \<le> max 0 (1 - d / r)"
proof -
  have "d / r \<le> d' / r" using assms by (simp add: divide_right_mono)
  then show ?thesis by (simp add: max_def)
qed

text \<open>
  Claim C2. For every radius \<open>r > 0\<close> and distance \<open>d \<ge> 0\<close>, both falloff functions (the
  quadratic one of the enhanced vertex shader and the cubic one of the basic vertex
  shader) return exactly \<open>0\<close> for \<open>d \<ge> r\<close>; on \<open>[0, r)\<close> they equal \<open>((r - d) / r)^2\<close> and
  \<open>((r - d) / r)^3\<close>; they are non-increasing in \<open>d\<close>, equal \<open>1\<close> at \<open>d = 0\<close>, tend to \<open>0\<close> as
  \<open>d\<close> approaches \<open>r\<close> from below, and are continuous at \<open>r\<close>.
\<close>

theorem smoothFalloff_shape:
  assumes "0 < r" and "0 \<le> d"
  shows "(r \<le> d \<longrightarrow> smoothFalloff_enhanced d r = 0 \<and> smoothFalloff_basic d r = 0)
       \<and> (d < r \<longrightarrow> smoothFalloff_enhanced d r = ((r - d) / r)\<^sup>2
                    \<and> smoothFalloff_basic d r = ((r - d) / r) ^ 3)
       \<and> (\<forall>d'. d \<le> d' \<longrightarrow> smoothFalloff_enhanced d' r \<le> smoothFalloff_enhanced d r
                        \<and> smoothFalloff_basic d' r \<le> smoothFalloff_basic d r)
       \<and> smoothFalloff_enhanced 0 r = 1 \<and> smoothFalloff_basic 0 r = 1
       \<and> ((\<lambda>x. smoothFalloff_enhanced x r) \<longlongrightarrow> 0) (at_left r)
       \<and> ((\<lambda>x. smoothFalloff_basic x r) \<longlongrightarrow> 0) (at_left r)
       \<and> isCont (\<lambda>x. smoothFalloff_enhanced x r) r
       \<and> isCont (\<lambda>x. smoothFalloff_basic x r) r"
proof -
  have r0: "r \<noteq> 0" using assms by simp
  have zero: "r \<le> d \<longrightarrow> smoothFalloff_enhanced d r = 0 \<and> smoothFalloff_basic d r = 0"
    by (simp add: smoothFalloff_enhanced_def smoothFalloff_basic_def)
  have e: "1 - d / r = (r - d) / r" using r0 by (simp add: field_simps)
  have inside: "d < r \<longrightarrow> smoothFalloff_enhanced d r = ((r - d) / r)\<^sup>2
                    \<and> smoothFalloff_basic d r = ((r - d) / r) ^ 3"
    using e by (simp add: smoothFalloff_enhanced_def smoothFalloff_basic_def Let_def
        power2_eq_square power3_eq_cube)
  have mono: "\<forall>d'. d \<le> d' \<longrightarrow> smoothFalloff_enhanced d' r \<le> smoothFalloff_enhanced d r
                        \<and> smoothFalloff_basic d' r \<le> smoothFalloff_basic d r"
  proof (intro allI impI)
    fix d' assume "d \<le> d'"
    then have m: "max 0 (1 - d' / r) \<le> max 0 (1 - d / r)"
      using assms by (intro ramp_antimono)
    have n: "0 \<le> max 0 (1 - d' / r)" by simp
    show "smoothFalloff_enhanced d' r \<le> smoothFalloff_enhanced d r
                        \<and> smoothFalloff_basic d' r \<le> smoothFalloff_basic d r"
      unfolding smoothFalloff_enhanced_max [OF assms(1)] smoothFalloff_basic_max [OF assms(1)]
      using m n by (intro conjI power_mono)
  qed
  have at0: "smoothFalloff_enhanced 0 r = 1 \<and> smoothFalloff_basic 0 r = 1"
    using assms by (simp add: smoothFalloff_enhanced_def smoothFalloff_basic_def)
  have ce: "isCont (\<lambda>x. smoothFalloff_enhanced x r) r"
    unfolding smoothFalloff_enhanced_max [OF assms(1)]
    by (intro continuous_intros) (rule r0)
  have cb: "isCont (\<lambda>x. smoothFalloff_basic x r) r"
    unfolding smoothFalloff_basic_max [OF assms(1)]
    by (intro continuous_intros) (rule r0)
  have le: "((\<lambda>x. smoothFalloff_enhanced x r) \<longlongrightarrow> smoothFalloff_enhanced r r) (at_left r)"
    using ce by (simp add: continuous_within filterlim_at_split isCont_def)
  have lb: "((\<lambda>x. smoothFalloff_basic x r) \<longlongrightarrow> smoothFalloff_basic r r) (at_left r)"
    using cb by (simp add: continuous_within filterlim_at_split isCont_def)
  have rr: "smoothFalloff_enhanced r r = 0" "smoothFalloff_basic r r = 0"
    by (simp_all add: smoothFalloff_enhanced_def smoothFalloff_basic_def)
  show ?thesis
    using zero inside mono at0 ce cb le lb unfolding rr by blast
qed

theorem smoothFalloff_shape_witness:
  "(0::real) < 2 \<and> (0::real) \<le> 1
   \<and> smoothFalloff_enhanced 1 2 = 1 / 4 \<and> smoothFalloff_basic 1 2 = 1 / 8
   \<and> smoothFalloff_enhanced (3 / 2) 2 \<le> smoothFalloff_enhanced 1 2
   \<and> smoothFalloff_basic (3 / 2) 2 \<le> smoothFalloff_basic 1 2
   \<and> smoothFalloff_enhanced 0 2 = 1 \<and> smoothFalloff_basic 0 2 = 1
   \<and> ((\<lambda>x. smoothFalloff_basic x 2) \<longlongrightarrow> 0) (at_left 2)"
proof -
  have h: "(0::real) < 2" "(0::real) \<le> 1" by simp_all
  note t = smoothFalloff_shape [OF h]
  have "smoothFalloff_enhanced 1 2 = 1 / 4" "smoothFalloff_basic 1 2 = 1 / 8"
    using t by (simp_all add: power2_eq_square power3_eq_cube)
  moreover have m: "\<forall>d'. 1 \<le> d' \<longrightarrow> smoothFalloff_enhanced d' 2 \<le> smoothFalloff_enhanced 1 2
                        \<and> smoothFalloff_basic d' 2 \<le> smoothFalloff_basic 1 2"
    using t by blast
  have "smoothFalloff_enhanced (3 / 2) 2 \<le> smoothFalloff_enhanced 1 2"
    "smoothFalloff_basic (3 / 2) 2 \<le> smoothFalloff_basic 1 2"
    using m [rule_format, of "3 / 2"] by simp_all
  ultimately show ?thesis using t h by blast
qed

section \<open>Direction of the bulge displacement\<close>

lemma normalize3_smul3: "normalize3 v = smul3 v (1 / length3 v)"
  by (simp add: normalize3_def smul3_def map3_def)

lemma length3_nonneg: "0 \<le> length3 v"
  by (simp add: length3_def dot3_def)

lemma smul3_zero: "smul3 v 0 = splat3 0"
  by (simp add: smul3_def map3_def splat3_def)

lemma noise_factor_pos: "0 < 1.0 + pnoise P rep * 0.05"
  using pnoise_bound [of P rep] by (simp add: abs_le_iff)

lemma sin_affine_nonneg:
  fixes a b x :: real
  assumes "0 \<le> a" "a \<le> b"
  shows "0 \<le> sin x * a + b"
proof -
  have "- 1 * a \<le> sin x * a"
    using assms(1) sin_ge_minus_one [of x] by (intro mult_right_mono) simp_all
  then show ?thesis using assms(2) by linarith
qed

lemma sin_affine_le:
  fixes a b x :: real
  assumes "0 \<le> a"
  shows "b - a \<le> sin x * a + b"
proof -
  have "- 1 * a \<le> sin x * a"
    using assms sin_ge_minus_one [of x] by (intro mult_right_mono) simp_all
  then show ?thesis by linarith
qed

lemma basic_exact:
  "calculateBulgeDisplacement_basic t worldPos normal mousePos strength r intensity =
     smul3 normal
       (if smoothFalloff_basic (length3 (sub3 worldPos mousePos)) r \<le> 0.001 then 0
        else strength * smoothFalloff_basic (length3 (sub3 worldPos mousePos)) r * intensity
               * (sin (t * 1.5) * 0.05 + 0.95)
               * (1.0 + pnoise (sadd3 (smul3 worldPos 2.0) (t * 0.3)) (splat3 10.0) * 0.05) * 2.2
             / length3 normal)"
  by (simp add: calculateBulgeDisplacement_basic_def Let_def splat3_def normalize3_def smul3_def
      map3_def)

lemma basic_amount_nonneg:
  assumes "0 \<le> strength" "0 \<le> intensity"
  shows "0 \<le> (if smoothFalloff_basic d r \<le> 0.001 then 0
        else strength * smoothFalloff_basic d r * intensity
               * (sin (t * 1.5) * 0.05 + 0.95)
               * (1.0 + pnoise P rep * 0.05) * 2.2
             / length3 normal)"
proof (cases "smoothFalloff_basic d r \<le> 0.001")
  case True
  then show ?thesis by simp
next
  case False
  have f: "0 \<le> smoothFalloff_basic d r" using False by simp
  have a: "0 \<le> sin (t * 1.5) * 0.05 + 0.95" by (rule sin_affine_nonneg) simp_all
  have n: "0 \<le> 1.0 + pnoise P rep * 0.05" using noise_factor_pos by (rule less_imp_le)
  have "0 \<le> strength * smoothFalloff_basic d r * intensity
               * (sin (t * 1.5) * 0.05 + 0.95)
               * (1.0 + pnoise P rep * 0.05) * 2.2"
    using assms f a n by (intro mult_nonneg_nonneg) simp_all
  then have "0 \<le> strength * smoothFalloff_basic d r * intensity
               * (sin (t * 1.5) * 0.05 + 0.95)
               * (1.0 + pnoise P rep * 0.05) * 2.2 / length3 normal"
    using length3_nonneg [of normal] by (rule divide_nonneg_nonneg)
  then show ?thesis using False by (simp only: if_False)
qed

lemma enhanced_exact:
  "calculateBulgeDisplacement_enhanced t worldPos normal mousePos strength r intensity =
     add3 (smul3 normal
             (if smoothFalloff_enhanced (length3 (sub3 worldPos mousePos)) r \<le> 0.001 then 0
              else strength * smoothFalloff_enhanced (length3 (sub3 worldPos mousePos)) r * intensity
                     * (sin (t * 2.0) * 0.1 + 0.9)))
          (smul3 (vec3 (sin (t * 3.0) * 0.02) (cos (t * 2.5) * 0.02) (sin (t * 1.8) * 0.02))
             (if smoothFalloff_enhanced (length3 (sub3 worldPos mousePos)) r \<le> 0.001 then 0
              else smoothFalloff_enhanced (length3 (sub3 worldPos mousePos)) r * strength))"
  by (simp add: calculateBulgeDisplacement_enhanced_def Let_def smul3_def map3_def add3_def
      zip3_def splat3_def)

lemma enhanced_amounts_nonneg:
  assumes "0 \<le> strength" "0 \<le> intensity"
  shows "0 \<le> (if smoothFalloff_enhanced d r \<le> 0.001 then 0
              else strength * smoothFalloff_enhanced d r * intensity * (sin (t * 2.0) * 0.1 + 0.9))"
    and "0 \<le> (if smoothFalloff_enhanced d r \<le> 0.001 then 0
              else smoothFalloff_enhanced d r * strength)"
proof -
  have a: "0 \<le> sin (t * 2.0) * 0.1 + 0.9" by (rule sin_affine_nonneg) simp_all
  show "0 \<le> (if smoothFalloff_enhanced d r \<le> 0.001 then 0
              else strength * smoothFalloff_enhanced d r * intensity * (sin (t * 2.0) * 0.1 + 0.9))"
  proof (cases "smoothFalloff_enhanced d r \<le> 0.001")
    case True
    then show ?thesis by simp
  next
    case False
    then have f: "0 \<le> smoothFalloff_enhanced d r" by simp
    have "0 \<le> strength * smoothFalloff_enhanced d r * intensity * (sin (t * 2.0) * 0.1 + 0.9)"
      using assms f a by (intro mult_nonneg_nonneg) simp_all
    then show ?thesis using False by (simp only: if_False)
  qed
  show "0 \<le> (if smoothFalloff_enhanced d r \<le> 0.001 then 0
              else smoothFalloff_enhanced d r * strength)"
    using assms(1) by (auto intro!: mult_nonneg_nonneg)
qed

lemma unit_component:
  fixes a b c :: real
  assumes "a * a + b * b + c * c = 1"
  shows "\<bar>a\<bar> \<le> 1"
proof -
  have "0 \<le> b * b" "0 \<le> c * c" by simp_all
  then have "a * a \<le> 1" using assms by linarith
  then show ?thesis
    by (simp add: abs_le_square_iff [of a 1, simplified] power2_eq_square)
qed

lemma trig_times_component:
  fixes s n :: real
  assumes "\<bar>s\<bar> \<le> 1" "\<bar>n\<bar> \<le> 1"
  shows "- 1 \<le> s * n"
proof -
  have "\<bar>s * n\<bar> \<le> 1 * 1"
    unfolding abs_mult using assms by (intro mult_mono) simp_all
  then show ?thesis by (simp add: abs_le_iff)
qed

lemma enhanced_half_space:
  assumes "0 \<le> strength" and "3 / 40 \<le> intensity" and "dot3 normal normal = 1"
  shows "0 \<le> dot3 (calculateBulgeDisplacement_enhanced t worldPos normal mousePos strength r intensity)
                normal"
proof (cases "smoothFalloff_enhanced (length3 (sub3 worldPos mousePos)) r \<le> 0.001")
  case True
  then show ?thesis
    by (simp add: calculateBulgeDisplacement_enhanced_def Let_def splat3_def dot3_def)
next
  case False
  define f where "f = smoothFalloff_enhanced (length3 (sub3 worldPos mousePos)) r"
  define anim where "anim = sin (t * 2.0) * 0.1 + 0.9"
  define nx where "nx = x3 normal"
  define ny where "ny = y3 normal"
  define nz where "nz = z3 normal"
  define w where "w = sin (t * 3.0) * nx + cos (t * 2.5) * ny + sin (t * 1.8) * nz"
  have u: "nx * nx + ny * ny + nz * nz = 1"
    using assms(3) by (simp add: dot3_def nx_def ny_def nz_def)
  have c: "\<bar>nx\<bar> \<le> 1" "\<bar>ny\<bar> \<le> 1" "\<bar>nz\<bar> \<le> 1"
    using u unit_component [of nx ny nz] unit_component [of ny nx nz] unit_component [of nz nx ny]
    by (simp_all add: add.commute add.left_commute)
  have w: "- 3 \<le> w"
    unfolding w_def
    using trig_times_component [OF _ c(1), of "sin (t * 3.0)"]
      trig_times_component [OF _ c(2), of "cos (t * 2.5)"]
      trig_times_component [OF _ c(3), of "sin (t * 1.8)"]
    by simp
  have a: "4 / 5 \<le> anim"
    unfolding anim_def using sin_affine_le [of "0.1" "0.9" "t * 2.0"] by simp
  have ia: "3 / 40 * (4 / 5) \<le> intensity * anim"
    using assms(2) a by (intro mult_mono) simp_all
  have core: "0 \<le> intensity * anim + 0.02 * w"
    using ia w by simp
  have f: "0 \<le> f" using False by (simp add: f_def)
  have e: "calculateBulgeDisplacement_enhanced t worldPos normal mousePos strength r intensity =
     add3 (smul3 normal (strength * f * intensity * anim))
          (smul3 (vec3 (sin (t * 3.0) * 0.02) (cos (t * 2.5) * 0.02) (sin (t * 1.8) * 0.02))
             (f * strength))"
    unfolding f_def anim_def using False by (simp add: enhanced_exact)
  have "dot3 (add3 (smul3 normal (strength * f * intensity * anim))
          (smul3 (vec3 (sin (t * 3.0) * 0.02) (cos (t * 2.5) * 0.02) (sin (t * 1.8) * 0.02))
             (f * strength))) normal
        = strength * f * (intensity * anim * (nx * nx + ny * ny + nz * nz) + 0.02 * w)"
    by (simp add: w_def nx_def ny_def nz_def dot3_def add3_def zip3_def smul3_def map3_def
        field_simps)
  also have "\<dots> = strength * f * (intensity * anim + 0.02 * w)"
    by (simp add: u)
  finally show ?thesis
    unfolding e using assms(1) f core by (simp add: mult_nonneg_nonneg)
qed

text \<open>
  Claim C3, as the code has it. For non-negative strength and intensity and a non-zero
  normal, with \<open>falloff\<close> the shader's own falloff at the distance to the pointer (and
  every multiplier zero when that falloff is at most \<open>0.001\<close>):
  the bulge of the basic vertex shader is the normal times
  \<open>strength * falloff * intensity * (0.95 + 0.05 sin 1.5t) * (1 + noise) * 2.2 / |normal|\<close>,
  which is non-negative, and \<open>1 + noise\<close> is strictly positive, so the noise never inverts
  the sign;
  the bulge of the enhanced vertex shader is the normal times
  \<open>strength * falloff * intensity * (0.9 + 0.1 sin 2t)\<close>, which is non-negative, plus the
  vector \<open>0.02 * (sin 3t, cos 2.5t, sin 1.8t)\<close> times \<open>falloff * strength\<close>, the horizontal
  displacement the shader adds on purpose;
  and for a unit normal and an intensity of at least \<open>0.075\<close> (the driver passes \<open>0.3\<close>) the
  enhanced bulge stays in the half-space of the normal.
\<close>

theorem bulge_displacement_direction:
  fixes t strength r intensity :: real and worldPos normal mousePos :: vec3
  assumes "0 \<le> strength" and "0 \<le> intensity" and "normal \<noteq> vec3 0 0 0"
  defines "fb \<equiv> smoothFalloff_basic (length3 (sub3 worldPos mousePos)) r"
  defines "fe \<equiv> smoothFalloff_enhanced (length3 (sub3 worldPos mousePos)) r"
  defines "noise \<equiv> pnoise (sadd3 (smul3 worldPos 2.0) (t * 0.3)) (splat3 10.0) * 0.05"
  defines "kb \<equiv> (if fb \<le> 0.001 then 0
                 else strength * fb * intensity * (sin (t * 1.5) * 0.05 + 0.95) * (1.0 + noise) * 2.2
                      / length3 normal)"
  defines "ke \<equiv> (if fe \<le> 0.001 then 0
                 else strength * fe * intensity * (sin (t * 2.0) * 0.1 + 0.9))"
  defines "we \<equiv> (if fe \<le> 0.001 then 0 else fe * strength)"
  shows "calculateBulgeDisplacement_basic t worldPos normal mousePos strength r intensity
           = smul3 normal kb
       \<and> 0 \<le> kb \<and> 0 < 1.0 + noise
       \<and> calculateBulgeDisplacement_enhanced t worldPos normal mousePos strength r intensity
           = add3 (smul3 normal ke)
                  (smul3 (vec3 (sin (t * 3.0) * 0.02) (cos (t * 2.5) * 0.02) (sin (t * 1.8) * 0.02)) we)
       \<and> 0 \<le> ke \<and> 0 \<le> we
       \<and> (dot3 normal normal = 1 \<and> 3 / 40 \<le> intensity \<longrightarrow>
            0 \<le> dot3 (calculateBulgeDisplacement_enhanced t worldPos normal mousePos strength r intensity)
                      normal)"
  unfolding kb_def ke_def we_def fb_def fe_def noise_def
  using basic_exact [of t worldPos normal mousePos strength r intensity]
    basic_amount_nonneg [OF assms(1,2)]
    noise_factor_pos
    enhanced_exact [of t worldPos normal mousePos strength r intensity]
    enhanced_amounts_nonneg [OF assms(1,2)]
    enhanced_half_space [OF assms(1)]
  by blast

theorem bulge_displacement_direction_witness:
  "(0::real) \<le> 1 \<and> (0::real) \<le> 3 / 10 \<and> vec3 0 0 1 \<noteq> vec3 0 0 0
   \<and> dot3 (vec3 0 0 1) (vec3 0 0 1) = 1 \<and> (3::real) / 40 \<le> 3 / 10
   \<and> (\<exists>k. 0 \<le> k \<and>
          calculateBulgeDisplacement_basic 0 (vec3 0 0 (11 / 4)) (vec3 0 0 1) (vec3 0 0 (11 / 4))
            1 (9 / 10) (3 / 10) = smul3 (vec3 0 0 1) k)
   \<and> calculateBulgeDisplacement_enhanced 0 (vec3 0 0 (11 / 4)) (vec3 0 0 1) (vec3 0 0 (11 / 4))
        1 (9 / 10) (3 / 10)
      = add3 (smul3 (vec3 0 0 1) (27 / 100)) (smul3 (vec3 0 (1 / 50) 0) 1)
   \<and> 0 \<le> dot3 (calculateBulgeDisplacement_enhanced 0 (vec3 0 0 (11 / 4)) (vec3 0 0 1)
                  (vec3 0 0 (11 / 4)) 1 (9 / 10) (3 / 10)) (vec3 0 0 1)"
proof -
  have h: "(0::real) \<le> 1" "(0::real) \<le> 3 / 10" "vec3 0 0 1 \<noteq> vec3 0 0 0" by simp_all
  have u: "dot3 (vec3 0 0 1) (vec3 0 0 1) = 1" "(3::real) / 40 \<le> 3 / 10"
    by (simp_all add: dot3_def)
  have f: "smoothFalloff_enhanced (length3 (sub3 (vec3 0 0 (11 / 4)) (vec3 0 0 (11 / 4)))) (9 / 10) = 1"
    by (simp add: smoothFalloff_enhanced_def length3_def sub3_def zip3_def dot3_def)
  note t = bulge_displacement_direction [OF h, of 0 "vec3 0 0 (11 / 4)" "vec3 0 0 (11 / 4)" "9 / 10"]
  have b: "\<exists>k. 0 \<le> k \<and>
          calculateBulgeDisplacement_basic 0 (vec3 0 0 (11 / 4)) (vec3 0 0 1) (vec3 0 0 (11 / 4))
            1 (9 / 10) (3 / 10) = smul3 (vec3 0 0 1) k"
    using t by blast
  have e: "calculateBulgeDisplacement_enhanced 0 (vec3 0 0 (11 / 4)) (vec3 0 0 1) (vec3 0 0 (11 / 4))
        1 (9 / 10) (3 / 10)
      = add3 (smul3 (vec3 0 0 1) (27 / 100)) (smul3 (vec3 0 (1 / 50) 0) 1)"
    using t by (simp add: f)
  have d: "0 \<le> dot3 (calculateBulgeDisplacement_enhanced 0 (vec3 0 0 (11 / 4)) (vec3 0 0 1)
                  (vec3 0 0 (11 / 4)) 1 (9 / 10) (3 / 10)) (vec3 0 0 1)"
    using t u by blast
  show ?thesis using h u b e d by blast
qed

text \<open>
  Claim C3, as stated, fails on the enhanced vertex shader at the values the driver
  passes (radius \<open>0.9\<close>, intensity \<open>0.3\<close>): at time \<open>0\<close>, with full strength, the pointer on
  the vertex \<open>(0, 0, 2.75)\<close> and the normal \<open>(0, 0, 1)\<close>, the displacement is
  \<open>(0, 0.02, 0.27)\<close>, which is no multiple of the normal.
\<close>

theorem bulge_enhanced_not_along_normal:
  "calculateBulgeDisplacement_enhanced 0 (vec3 0 0 (11 / 4)) (vec3 0 0 1) (vec3 0 0 (11 / 4))
     1 (9 / 10) (3 / 10) = vec3 0 (1 / 50) (27 / 100)
   \<and> \<not> (\<exists>k. calculateBulgeDisplacement_enhanced 0 (vec3 0 0 (11 / 4)) (vec3 0 0 1) (vec3 0 0 (11 / 4))
              1 (9 / 10) (3 / 10) = smul3 (vec3 0 0 1) k)"
proof -
  have v: "calculateBulgeDisplacement_enhanced 0 (vec3 0 0 (11 / 4)) (vec3 0 0 1) (vec3 0 0 (11 / 4))
     1 (9 / 10) (3 / 10) = vec3 0 (1 / 50) (27 / 100)"
    by (simp add: calculateBulgeDisplacement_enhanced_def smoothFalloff_enhanced_def Let_def
        length3_def sub3_def zip3_def dot3_def smul3_def map3_def add3_def)
  show ?thesis unfolding v by (simp add: smul3_def map3_def)
qed

section \<open>The scene built by a successful start\<close>

declare waitForCanvas_loop.simps [simp del]

lemma loadTextures_all_loaded: "loadTextures [Loaded, Loaded, Loaded, Loaded] = Resolved"
  by (simp add: loadTextures_def checkAllLoaded_def settle_def Let_def)

lemma init_try_demo:
  "init_try demoEnv globals_new =
     Inr (Started,
          globals_new\<lparr> canvas := True, renderer := True, controls := True,
                       window_textures := Some (loadedTextures demoEnv),
                       earthMesh := Some \<lparr> geometry = SphereGeometry 2.75 300 300,
                         material = ShaderMaterial (enhancedUniforms (loadedTextures demoEnv) globals_new) \<rparr>,
                       group_children := [\<lparr> geometry = SphereGeometry 2.75 300 300,
                         material = ShaderMaterial (enhancedUniforms (loadedTextures demoEnv) globals_new) \<rparr>],
                       hoverTracking := True \<rparr>)"
  by (simp add: init_try_def waitForCanvas_loop.simps [of _ 0] demoEnv_def setupRenderer_def
      setupControls_def loadTextures_all_loaded createEarthMesh_def createGeometry_def Let_def
      globals_new_def LODManager_new_def enhancedUniforms_def)

lemma readyScene_fields:
  "earthMesh readyScene = Some \<lparr> geometry = SphereGeometry 2.75 300 300,
      material = ShaderMaterial (enhancedUniforms (loadedTextures demoEnv) globals_new) \<rparr>"
  "lodManager readyScene = LODManager_new"
  "performanceMonitor readyScene = PerformanceMonitor_new"
  "timeouts readyScene = []" "warnings readyScene = []" "disposed readyScene = []"
  "lastRaycastTime readyScene = 0"
  by (simp_all add: readyScene_def init_def init_try_demo) (simp_all add: globals_new_def)

lemma terrainDiversity_ready: "terrainDiversity readyScene = Some 1"
  by (simp add: terrainDiversity_def readyScene_fields enhancedUniforms_def)

lemma readyScene_monitor:
  "frameCount (performanceMonitor readyScene) = 0"
  "lastFPSUpdate (performanceMonitor readyScene) = 0"
  "\<not> isOptimizing (performanceMonitor readyScene)"
  by (simp_all add: readyScene_fields PerformanceMonitor_new_def)

section \<open>Level-of-detail bands and hysteresis\<close>

text \<open>
  Claim C4. \<open>calculateOptimalLOD\<close> scans the table and returns the resolution of the first
  band whose minimum distance is at most the camera distance, and \<open>300\<close> when no band
  matches; the table of a new manager is \<open>(15, 100), (10, 150), (7, 200), (0, 300)\<close>, its
  distances strictly decreasing and its resolutions strictly increasing; so each camera
  distance gets \<open>100\<close> from \<open>15\<close> on, \<open>150\<close> from \<open>10\<close> on, \<open>200\<close> from \<open>7\<close> on and \<open>300\<close> below.
\<close>

theorem calculateOptimalLOD_bands:
  "calculateOptimalLOD this d =
     (case find (\<lambda>l. distance l \<le> d) (lodLevels this) of Some l \<Rightarrow> vertices l | None \<Rightarrow> 300)
   \<and> map (\<lambda>l. (distance l, vertices l)) (lodLevels LODManager_new) =
       [(15, 100), (10, 150), (7, 200), (0, 300)]
   \<and> sorted_wrt (\<lambda>a b. distance b < distance a \<and> vertices a < vertices b) (lodLevels LODManager_new)
   \<and> calculateOptimalLOD LODManager_new d =
       (if 15 \<le> d then 100 else if 10 \<le> d then 150 else if 7 \<le> d then 200 else 300)"
  by (simp add: calculateOptimalLOD_def scanLevels_find LODManager_new_def)

theorem calculateOptimalLOD_bands_witness:
  "calculateOptimalLOD LODManager_new 12 = 150 \<and> calculateOptimalLOD LODManager_new 0 = 300
   \<and> calculateOptimalLOD LODManager_new 20 = 100 \<and> calculateOptimalLOD LODManager_new 7 = 200"
  using calculateOptimalLOD_bands [of LODManager_new 12] calculateOptimalLOD_bands [of LODManager_new 0]
    calculateOptimalLOD_bands [of LODManager_new 20] calculateOptimalLOD_bands [of LODManager_new 7]
  by simp

lemma LODManager_update_small:
  "\<bar>calculateOptimalLOD lm d - currentLOD lm\<bar> < 50 \<Longrightarrow>
   LODManager_update d lm = lm\<lparr> targetLOD := calculateOptimalLOD lm d \<rparr>"
  by (simp add: LODManager_update_def Let_def calculateOptimalLOD_def)

lemma LODManager_update_large:
  "50 \<le> \<bar>calculateOptimalLOD lm d - currentLOD lm\<bar> \<Longrightarrow>
   LODManager_update d lm =
     lm\<lparr> targetLOD := calculateOptimalLOD lm d, currentLOD := calculateOptimalLOD lm d,
         needsGeometryUpdate := True \<rparr>"
  by (simp add: LODManager_update_def Let_def calculateOptimalLOD_def)

lemma calculateOptimalLOD_fields [simp]:
  "calculateOptimalLOD (lm\<lparr> targetLOD := a \<rparr>) d = calculateOptimalLOD lm d"
  "calculateOptimalLOD (lm\<lparr> currentLOD := b \<rparr>) d = calculateOptimalLOD lm d"
  "calculateOptimalLOD (lm\<lparr> needsGeometryUpdate := c \<rparr>) d = calculateOptimalLOD lm d"
  by (simp_all add: calculateOptimalLOD_def)

lemma animate_lod_keeps:
  assumes "earthMesh g = Some m"
    and "\<bar>calculateOptimalLOD (lodManager g) d - currentLOD (lodManager g)\<bar> < 50"
    and "\<not> needsGeometryUpdate (lodManager g)"
  shows "animate_lod d g =
      g\<lparr> lodManager := (lodManager g)\<lparr> targetLOD := calculateOptimalLOD (lodManager g) d \<rparr> \<rparr>"
  using assms by (simp add: animate_lod_def Let_def LODManager_update_small)

lemma animate_lod_regenerates:
  assumes "earthMesh g = Some m"
    and "50 \<le> \<bar>calculateOptimalLOD (lodManager g) d - currentLOD (lodManager g)\<bar>"
  shows "animate_lod d g =
      g\<lparr> lodManager := (lodManager g)\<lparr> targetLOD := calculateOptimalLOD (lodManager g) d,
                                        currentLOD := calculateOptimalLOD (lodManager g) d,
                                        needsGeometryUpdate := False \<rparr>,
         disposed := disposed g @ [geometry m],
         earthMesh := Some (m\<lparr> geometry := SphereGeometry 2.75 (calculateOptimalLOD (lodManager g) d)
                                                         (calculateOptimalLOD (lodManager g) d) \<rparr>) \<rparr>"
  using assms by (simp add: animate_lod_def Let_def LODManager_update_large createGeometry_def)

text \<open>
  Claim C5, as the code has it. With \<open>tgt\<close> the resolution \<open>calculateOptimalLOD\<close> gives
  for the camera distance: while \<open>|tgt - currentLOD| < 50\<close>, \<open>update\<close> leaves \<open>currentLOD\<close>
  and the regeneration request as they were, and the frame disposes of no geometry; once
  \<open>|tgt - currentLOD| \<ge> 50\<close>, \<open>update\<close> sets \<open>currentLOD\<close> to \<open>tgt\<close> and requests a
  regeneration, and the frame that called it, not the following one, builds exactly one
  new geometry of that resolution (disposing of the old one) and clears the request; the
  following frame at the same distance regenerates nothing.
\<close>

theorem LODManager_update_hysteresis:
  fixes g :: globals and m :: mesh and d :: real
  assumes "earthMesh g = Some m"
  defines "lm \<equiv> lodManager g"
  defines "tgt \<equiv> calculateOptimalLOD (lodManager g) d"
  shows "(\<bar>tgt - currentLOD lm\<bar> < 50 \<longrightarrow>
            currentLOD (LODManager_update d lm) = currentLOD lm
          \<and> needsGeometryUpdate (LODManager_update d lm) = needsGeometryUpdate lm
          \<and> (\<not> needsGeometryUpdate lm \<longrightarrow>
               disposed (animate_lod d g) = disposed g \<and> earthMesh (animate_lod d g) = Some m))
       \<and> (50 \<le> \<bar>tgt - currentLOD lm\<bar> \<longrightarrow>
            currentLOD (LODManager_update d lm) = tgt
          \<and> needsGeometryUpdate (LODManager_update d lm)
          \<and> disposed (animate_lod d g) = disposed g @ [geometry m]
          \<and> earthMesh (animate_lod d g) = Some (m\<lparr> geometry := SphereGeometry 2.75 tgt tgt \<rparr>)
          \<and> currentLOD (lodManager (animate_lod d g)) = tgt
          \<and> \<not> needsGeometryUpdate (lodManager (animate_lod d g))
          \<and> disposed (animate_lod d (animate_lod d g)) = disposed g @ [geometry m])"
proof (intro conjI impI)
  assume s: "\<bar>tgt - currentLOD lm\<bar> < 50"
  then have u: "LODManager_update d lm = lm\<lparr> targetLOD := tgt \<rparr>"
    unfolding tgt_def lm_def by (rule LODManager_update_small)
  show "currentLOD (LODManager_update d lm) = currentLOD lm"
    "needsGeometryUpdate (LODManager_update d lm) = needsGeometryUpdate lm"
    by (simp_all add: u)
  assume "\<not> needsGeometryUpdate lm"
  then have "animate_lod d g = g\<lparr> lodManager := lm\<lparr> targetLOD := tgt \<rparr> \<rparr>"
    using assms(1) s unfolding tgt_def lm_def by (intro animate_lod_keeps)
  then show "disposed (animate_lod d g) = disposed g" "earthMesh (animate_lod d g) = Some m"
    using assms(1) by simp_all
next
  assume l: "50 \<le> \<bar>tgt - currentLOD lm\<bar>"
  then have u: "LODManager_update d lm =
      lm\<lparr> targetLOD := tgt, currentLOD := tgt, needsGeometryUpdate := True \<rparr>"
    unfolding tgt_def lm_def by (rule LODManager_update_large)
  show "currentLOD (LODManager_update d lm) = tgt" "needsGeometryUpdate (LODManager_update d lm)"
    by (simp_all add: u)
  have a: "animate_lod d g =
      g\<lparr> lodManager := lm\<lparr> targetLOD := tgt, currentLOD := tgt, needsGeometryUpdate := False \<rparr>,
         disposed := disposed g @ [geometry m],
         earthMesh := Some (m\<lparr> geometry := SphereGeometry 2.75 tgt tgt \<rparr>) \<rparr>"
    using assms(1) l unfolding tgt_def lm_def by (intro animate_lod_regenerates)
  show "disposed (animate_lod d g) = disposed g @ [geometry m]"
    "earthMesh (animate_lod d g) = Some (m\<lparr> geometry := SphereGeometry 2.75 tgt tgt \<rparr>)"
    "currentLOD (lodManager (animate_lod d g)) = tgt"
    "\<not> needsGeometryUpdate (lodManager (animate_lod d g))"
    by (simp_all add: a)
  have "animate_lod d (animate_lod d g) =
      (animate_lod d g)\<lparr> lodManager := (lodManager (animate_lod d g))
          \<lparr> targetLOD := calculateOptimalLOD (lodManager (animate_lod d g)) d \<rparr> \<rparr>"
    by (rule animate_lod_keeps [where m = "m\<lparr> geometry := SphereGeometry 2.75 tgt tgt \<rparr>"])
       (simp_all add: a tgt_def lm_def)
  then show "disposed (animate_lod d (animate_lod d g)) = disposed g @ [geometry m]"
    by (simp add: a)
qed

theorem LODManager_update_hysteresis_witness:
  "earthMesh readyScene = Some \<lparr> geometry = SphereGeometry 2.75 300 300,
      material = ShaderMaterial (enhancedUniforms (loadedTextures demoEnv) globals_new) \<rparr>
   \<and> \<bar>calculateOptimalLOD (lodManager readyScene) 5 - currentLOD (lodManager readyScene)\<bar> < 50
   \<and> \<not> needsGeometryUpdate (lodManager readyScene)
   \<and> currentLOD (LODManager_update 5 (lodManager readyScene)) = 300
   \<and> disposed (animate_lod 5 readyScene) = []
   \<and> 50 \<le> \<bar>calculateOptimalLOD (lodManager readyScene) 20 - currentLOD (lodManager readyScene)\<bar>
   \<and> currentLOD (LODManager_update 20 (lodManager readyScene)) = 100
   \<and> disposed (animate_lod 20 readyScene) = [SphereGeometry 2.75 300 300]
   \<and> disposed (animate_lod 20 (animate_lod 20 readyScene)) = [SphereGeometry 2.75 300 300]"
proof -
  have c: "calculateOptimalLOD LODManager_new 5 = 300"
    "calculateOptimalLOD LODManager_new 20 = 100"
    "currentLOD LODManager_new = 300" "\<not> needsGeometryUpdate LODManager_new"
    by (simp_all add: calculateOptimalLOD_def LODManager_new_def)
  show ?thesis
    using LODManager_update_hysteresis [OF readyScene_fields(1), of 5]
      LODManager_update_hysteresis [OF readyScene_fields(1), of 20]
    by (simp add: c readyScene_fields)
qed

text \<open>
  Claim C5, as stated, puts the regeneration on the frame after the update. On the
  freshly built scene (resolution \<open>300\<close>) a frame at camera distance \<open>20\<close> finds the target
  \<open>100\<close>: that same frame disposes of the old geometry, installs the geometry of
  resolution \<open>100\<close> and clears the request, and the following frame disposes of nothing.
\<close>

theorem lod_regeneration_in_same_frame:
  "disposed readyScene = []
   \<and> 50 \<le> \<bar>calculateOptimalLOD (lodManager readyScene) 20 - currentLOD (lodManager readyScene)\<bar>
   \<and> disposed (animate_lod 20 readyScene) = [SphereGeometry 2.75 300 300]
   \<and> map_option geometry (earthMesh (animate_lod 20 readyScene)) = Some (SphereGeometry 2.75 100 100)
   \<and> \<not> needsGeometryUpdate (lodManager (animate_lod 20 readyScene))
   \<and> disposed (animate_lod 20 (animate_lod 20 readyScene)) = disposed (animate_lod 20 readyScene)"
proof -
  have c: "calculateOptimalLOD LODManager_new 20 = 100" "currentLOD LODManager_new = 300"
    by (simp_all add: calculateOptimalLOD_def LODManager_new_def)
  have a: "animate_lod 20 readyScene =
      readyScene\<lparr> lodManager := LODManager_new\<lparr> targetLOD := 100, currentLOD := 100,
                                                 needsGeometryUpdate := False \<rparr>,
         disposed := [SphereGeometry 2.75 300 300],
         earthMesh := Some \<lparr> geometry = SphereGeometry 2.75 100 100,
           material = ShaderMaterial (enhancedUniforms (loadedTextures demoEnv) globals_new) \<rparr> \<rparr>"
    using animate_lod_regenerates [OF readyScene_fields(1), of 20]
    by (simp add: readyScene_fields c)
  have "animate_lod 20 (animate_lod 20 readyScene) =
      (animate_lod 20 readyScene)\<lparr> lodManager := (lodManager (animate_lod 20 readyScene))
          \<lparr> targetLOD := calculateOptimalLOD (lodManager (animate_lod 20 readyScene)) 20 \<rparr> \<rparr>"
    by (rule animate_lod_keeps [where m = "\<lparr> geometry = SphereGeometry 2.75 100 100,
           material = ShaderMaterial (enhancedUniforms (loadedTextures demoEnv) globals_new) \<rparr>"])
       (simp_all add: a c)
  then have "disposed (animate_lod 20 (animate_lod 20 readyScene)) = disposed (animate_lod 20 readyScene)"
    by simp
  then show ?thesis
    by (simp add: a c readyScene_fields)
qed

section \<open>Hover updates\<close>

lemma terrainDiversity_update_uniforms:
  "earthMesh g = Some m \<Longrightarrow> material m = ShaderMaterial u \<Longrightarrow>
   terrainDiversity (update_uniforms f g) = Some (uTerrainDiversity (f u))"
  by (simp add: terrainDiversity_def update_uniforms_def)

lemma update_uniforms_frame [simp]:
  "targetBulgeStrength (update_uniforms f g) = targetBulgeStrength g"
  "targetMouse (update_uniforms f g) = targetMouse g"
  "isMouseOverEarth (update_uniforms f g) = isMouseOverEarth g"
  "warnings (update_uniforms f g) = warnings g"
  "timeouts (update_uniforms f g) = timeouts g"
  "performanceMonitor (update_uniforms f g) = performanceMonitor g"
  "lastRaycastTime (update_uniforms f g) = lastRaycastTime g"
  by (simp_all add: update_uniforms_def split: option.splits)

text \<open>
  Claim C7. For a hover update that the raycast throttle lets through, with the earth
  mesh in place: if the ray hits the mesh, the target bulge strength becomes \<open>1.0\<close> and
  the target pointer position the local-space image of the nearest intersection point;
  if it misses, the target bulge strength becomes \<open>0.0\<close>; and the pointer-leave handler
  sets the target bulge strength to \<open>0.0\<close>.
\<close>

theorem updateHoverPosition_targets:
  fixes g :: globals and rect :: DOMRect and clientX clientY currentTime :: real
    and raycast :: "vec2 \<Rightarrow> geometry \<Rightarrow> vec3 list" and worldToLocal :: "vec3 \<Rightarrow> vec3"
  assumes "\<not> currentTime - lastRaycastTime g < RAYCAST_THROTTLE" and "earthMesh g = Some m"
  defines "ndc \<equiv> vec2 (((clientX - rect_left rect) / rect_width rect) * 2 - 1)
                       (- ((clientY - rect_top rect) / rect_height rect) * 2 + 1)"
  defines "g' \<equiv> updateHoverPosition raycast worldToLocal rect currentTime clientX clientY g"
  shows "(\<forall>p ps. raycast ndc (geometry m) = p # ps \<longrightarrow>
            targetBulgeStrength g' = 1.0 \<and> targetMouse g' = worldToLocal p)
       \<and> (raycast ndc (geometry m) = [] \<longrightarrow> targetBulgeStrength g' = 0.0)
       \<and> targetBulgeStrength (mouseleave g) = 0.0"
  using assms(1,2)
  by (auto simp: g'_def ndc_def updateHoverPosition_def Let_def mouseleave_def)

theorem updateHoverPosition_targets_witness:
  "\<not> 100 - lastRaycastTime readyScene < RAYCAST_THROTTLE
   \<and> earthMesh readyScene = Some \<lparr> geometry = SphereGeometry 2.75 300 300,
      material = ShaderMaterial (enhancedUniforms (loadedTextures demoEnv) globals_new) \<rparr>
   \<and> targetBulgeStrength (updateHoverPosition (\<lambda>ndc geo. [vec3 1 2 3]) (\<lambda>p. smul3 p 2)
        \<lparr> rect_left = 0, rect_top = 0, rect_width = 500, rect_height = 500 \<rparr> 100 250 250 readyScene) = 1
   \<and> targetMouse (updateHoverPosition (\<lambda>ndc geo. [vec3 1 2 3]) (\<lambda>p. smul3 p 2)
        \<lparr> rect_left = 0, rect_top = 0, rect_width = 500, rect_height = 500 \<rparr> 100 250 250 readyScene)
       = vec3 2 4 6
   \<and> targetBulgeStrength (updateHoverPosition (\<lambda>ndc geo. []) (\<lambda>p. smul3 p 2)
        \<lparr> rect_left = 0, rect_top = 0, rect_width = 500, rect_height = 500 \<rparr> 100 250 250 readyScene) = 0
   \<and> targetBulgeStrength (mouseleave readyScene) = 0"
proof -
  have h: "\<not> 100 - lastRaycastTime readyScene < RAYCAST_THROTTLE"
    by (simp add: readyScene_fields RAYCAST_THROTTLE_def)
  show ?thesis
    using h updateHoverPosition_targets [OF h readyScene_fields(1),
        where raycast = "\<lambda>ndc geo. [vec3 1 2 3]" and worldToLocal = "\<lambda>p. smul3 p 2"
          and rect = "\<lparr> rect_left = 0, rect_top = 0, rect_width = 500, rect_height = 500 \<rparr>"
          and clientX = 250 and clientY = 250]
      updateHoverPosition_targets [OF h readyScene_fields(1),
        where raycast = "\<lambda>ndc geo. []" and worldToLocal = "\<lambda>p. smul3 p 2"
          and rect = "\<lparr> rect_left = 0, rect_top = 0, rect_width = 500, rect_height = 500 \<rparr>"
          and clientX = 250 and clientY = 250]
    by (simp add: readyScene_fields smul3_def map3_def)
qed

text \<open>
  Claim C10. A hover update that is not throttled overwrites the terrain-diversity
  uniform of the shader material: \<open>1.5\<close> when the ray hits the mesh and \<open>1.0\<close> when it
  misses, whatever the value was; after the performance monitor's mitigation has scaled
  the uniform by \<open>0.7\<close>, the next hover update sets it to \<open>1.5\<close> or \<open>1.0\<close> all the same.
\<close>

theorem updateHoverPosition_diversity:
  fixes g :: globals and rect :: DOMRect and clientX clientY currentTime :: real
    and raycast :: "vec2 \<Rightarrow> geometry \<Rightarrow> vec3 list" and worldToLocal :: "vec3 \<Rightarrow> vec3"
  assumes "\<not> currentTime - lastRaycastTime g < RAYCAST_THROTTLE"
    and "earthMesh g = Some m" and "material m = ShaderMaterial u"
  defines "ndc \<equiv> vec2 (((clientX - rect_left rect) / rect_width rect) * 2 - 1)
                       (- ((clientY - rect_top rect) / rect_height rect) * 2 + 1)"
  defines "hover \<equiv> updateHoverPosition raycast worldToLocal rect currentTime clientX clientY"
  shows "terrainDiversity (hover g) = Some (if raycast ndc (geometry m) = [] then 1.0 else 1.5)
       \<and> terrainDiversity (triggerOptimization now g) = Some (uTerrainDiversity u * 0.7)
       \<and> terrainDiversity (hover (triggerOptimization now g)) =
           Some (if raycast ndc (geometry m) = [] then 1.0 else 1.5)"
proof -
  have h: "terrainDiversity (hover g) = Some (if raycast ndc (geometry m) = [] then 1.0 else 1.5)"
    if "\<not> currentTime - lastRaycastTime g < RAYCAST_THROTTLE"
      "earthMesh g = Some m" "material m = ShaderMaterial u" for g m u
    using that
    by (auto simp: hover_def ndc_def updateHoverPosition_def Let_def terrainDiversity_update_uniforms
        split: list.splits)
  have t: "earthMesh (triggerOptimization now g) =
       Some (m\<lparr> material := ShaderMaterial (u\<lparr> uTerrainDiversity := uTerrainDiversity u * 0.7 \<rparr>) \<rparr>)"
    "lastRaycastTime (triggerOptimization now g) = lastRaycastTime g"
    using assms(2,3) by (simp_all add: triggerOptimization_def Let_def update_uniforms_def)
  have "terrainDiversity (hover (triggerOptimization now g)) =
      Some (if raycast ndc (geometry (m\<lparr> material := ShaderMaterial (u\<lparr> uTerrainDiversity := uTerrainDiversity u * 0.7 \<rparr>) \<rparr>)) = []
            then 1.0 else 1.5)"
    using assms(1) t by (intro h) simp_all
  moreover have "terrainDiversity (triggerOptimization now g) = Some (uTerrainDiversity u * 0.7)"
    using t(1) by (simp add: terrainDiversity_def)
  ultimately show ?thesis
    using h [OF assms(1,2,3)] by simp
qed

theorem updateHoverPosition_diversity_witness:
  "\<not> 100 - lastRaycastTime readyScene < RAYCAST_THROTTLE
   \<and> terrainDiversity (updateHoverPosition (\<lambda>ndc geo. [vec3 1 2 3]) (\<lambda>p. p)
        \<lparr> rect_left = 0, rect_top = 0, rect_width = 500, rect_height = 500 \<rparr> 100 250 250 readyScene)
       = Some (3 / 2)
   \<and> terrainDiversity (updateHoverPosition (\<lambda>ndc geo. []) (\<lambda>p. p)
        \<lparr> rect_left = 0, rect_top = 0, rect_width = 500, rect_height = 500 \<rparr> 100 250 250 readyScene)
       = Some 1
   \<and> terrainDiversity (triggerOptimization 50 readyScene) = Some (7 / 10)
   \<and> terrainDiversity (updateHoverPosition (\<lambda>ndc geo. [vec3 1 2 3]) (\<lambda>p. p)
        \<lparr> rect_left = 0, rect_top = 0, rect_width = 500, rect_height = 500 \<rparr> 100 250 250
        (triggerOptimization 50 readyScene)) = Some (3 / 2)
   \<and> terrainDiversity (updateHoverPosition (\<lambda>ndc geo. []) (\<lambda>p. p)
        \<lparr> rect_left = 0, rect_top = 0, rect_width = 500, rect_height = 500 \<rparr> 100 250 250
        (triggerOptimization 50 readyScene)) = Some 1"
proof -
  have h: "\<not> 100 - lastRaycastTime readyScene < RAYCAST_THROTTLE"
    by (simp add: readyScene_fields RAYCAST_THROTTLE_def)
  have m: "material \<lparr> geometry = SphereGeometry 2.75 300 300,
      material = ShaderMaterial (enhancedUniforms (loadedTextures demoEnv) globals_new) \<rparr>
     = ShaderMaterial (enhancedUniforms (loadedTextures demoEnv) globals_new)"
    by simp
  show ?thesis
    using h updateHoverPosition_diversity [OF h readyScene_fields(1) m,
        where raycast = "\<lambda>ndc geo. [vec3 1 2 3]" and worldToLocal = "\<lambda>p. p"
          and rect = "\<lparr> rect_left = 0, rect_top = 0, rect_width = 500, rect_height = 500 \<rparr>"
          and clientX = 250 and clientY = 250 and now = 50]
      updateHoverPosition_diversity [OF h readyScene_fields(1) m,
        where raycast = "\<lambda>ndc geo. []" and worldToLocal = "\<lambda>p. p"
          and rect = "\<lparr> rect_left = 0, rect_top = 0, rect_width = 500, rect_height = 500 \<rparr>"
          and clientX = 250 and clientY = 250 and now = 50]
    by (simp add: enhancedUniforms_def)
qed

section \<open>Initialisation falls back to the basic mesh\<close>

lemma settled_stays:
  "settled l \<noteq> Pending \<Longrightarrow> settled (fold texture_callback events l) = settled l"
proof (induction events arbitrary: l)
  case Nil
  then show ?case by simp
next
  case (Cons ev events)
  have "settled (texture_callback ev l) = settled l"
    using Cons.prems by (cases ev) (simp_all add: checkAllLoaded_def handleError_def settle_def Let_def)
  then show ?case using Cons by simp
qed

lemma failed_rejects:
  "Failed \<in> set events \<Longrightarrow> loadedCount l + length events \<le> 4 \<Longrightarrow>
   settled l = Pending \<Longrightarrow> \<not> hasError l \<Longrightarrow>
   settled (fold texture_callback events l) = Rejected TextureLoadError"
proof (induction events arbitrary: l)
  case Nil
  then show ?case by simp
next
  case (Cons ev events)
  show ?case
  proof (cases ev)
    case Failed
    have "settled (handleError l) = Rejected TextureLoadError"
      using Cons.prems by (simp add: handleError_def settle_def)
    then show ?thesis using Failed settled_stays [of "handleError l" events] by simp
  next
    case Loaded
    have c: "checkAllLoaded l = l\<lparr> loadedCount := loadedCount l + 1 \<rparr>"
      using Cons.prems Loaded by (auto simp: checkAllLoaded_def Let_def)
    show ?thesis
      using Cons.prems Loaded c by (simp add: Cons.IH)
  qed
qed

lemma loadTextures_rejected:
  "Failed \<in> set events \<Longrightarrow> length events \<le> 4 \<Longrightarrow> loadTextures events = Rejected TextureLoadError"
  unfolding loadTextures_def by (rule failed_rejects) simp_all

lemma init_try_throws:
  assumes "loadTextures (textureEvents e) = Rejected err0"
  shows "\<exists>err g'. init_try e g = Inl (err, g')"
  using assms
  by (auto simp: init_try_def setupRenderer_def setupControls_def Let_def
      split: option.splits sum.splits bool.splits prod.splits)

text \<open>
  Claim C9. If one of the (at most four) texture callbacks reports a failure, \<open>init\<close>
  returns without an exception: its \<open>catch\<close> block builds the fallback mesh in the same
  run. When the canvas and the WebGL context are there, the error caught is the texture
  error. The fallback mesh is a sphere of \<open>200\<close> segments, fewer than the \<open>300\<close> of the
  primary mesh, and its material has no uniforms.
\<close>

theorem init_falls_back:
  assumes "Failed \<in> set (textureEvents e)" and "length (textureEvents e) \<le> 4"
  shows "(\<exists>err g'. init e g = Inr (FellBack err, createBasicEarthMesh g'))
       \<and> (canvasAt e 0 \<and> webgl e \<longrightarrow>
            init e g = Inr (FellBack TextureLoadError,
              createBasicEarthMesh (g\<lparr> canvas := True, renderer := True, controls := True \<rparr>)))
       \<and> earthMesh (createBasicEarthMesh g0) = Some basicEarthMesh
       \<and> material_uniforms (material basicEarthMesh) = None
       \<and> geometry basicEarthMesh = SphereGeometry 2.75 200 200
       \<and> widthSegments (geometry basicEarthMesh) < currentLOD LODManager_new"
proof -
  have r: "loadTextures (textureEvents e) = Rejected TextureLoadError"
    using assms by (rule loadTextures_rejected)
  obtain err g' where t: "init_try e g = Inl (err, g')"
    using init_try_throws [OF r] by blast
  have a: "\<exists>err g'. init e g = Inr (FellBack err, createBasicEarthMesh g')"
    by (intro exI [of _ err] exI [of _ g']) (simp add: init_def t)
  have b: "canvasAt e 0 \<and> webgl e \<longrightarrow>
            init e g = Inr (FellBack TextureLoadError,
              createBasicEarthMesh (g\<lparr> canvas := True, renderer := True, controls := True \<rparr>))"
    by (simp add: init_def init_try_def waitForCanvas_loop.simps [of _ 0] setupRenderer_def
        setupControls_def r Let_def)
  show ?thesis
    using a b
    by (simp add: createBasicEarthMesh_def basicEarthMesh_def SphereGeometry_def LODManager_new_def)
qed

theorem init_falls_back_witness:
  "Failed \<in> set (textureEvents (demoEnv\<lparr> textureEvents := [Loaded, Failed, Loaded, Loaded] \<rparr>))
   \<and> length (textureEvents (demoEnv\<lparr> textureEvents := [Loaded, Failed, Loaded, Loaded] \<rparr>)) \<le> 4
   \<and> canvasAt (demoEnv\<lparr> textureEvents := [Loaded, Failed, Loaded, Loaded] \<rparr>) 0
   \<and> webgl (demoEnv\<lparr> textureEvents := [Loaded, Failed, Loaded, Loaded] \<rparr>)
   \<and> init (demoEnv\<lparr> textureEvents := [Loaded, Failed, Loaded, Loaded] \<rparr>) globals_new =
       Inr (FellBack TextureLoadError,
            createBasicEarthMesh (globals_new\<lparr> canvas := True, renderer := True, controls := True \<rparr>))
   \<and> earthMesh (createBasicEarthMesh (globals_new\<lparr> canvas := True, renderer := True, controls := True \<rparr>))
       = Some basicEarthMesh
   \<and> material_uniforms (material basicEarthMesh) = None"
proof -
  have h: "Failed \<in> set (textureEvents (demoEnv\<lparr> textureEvents := [Loaded, Failed, Loaded, Loaded] \<rparr>))"
    "length (textureEvents (demoEnv\<lparr> textureEvents := [Loaded, Failed, Loaded, Loaded] \<rparr>)) \<le> 4"
    by simp_all
  have c: "canvasAt (demoEnv\<lparr> textureEvents := [Loaded, Failed, Loaded, Loaded] \<rparr>) 0"
    "webgl (demoEnv\<lparr> textureEvents := [Loaded, Failed, Loaded, Loaded] \<rparr>)"
    by (simp_all add: demoEnv_def)
  show ?thesis
    using h c init_falls_back [OF h, of globals_new
        "globals_new\<lparr> canvas := True, renderer := True, controls := True \<rparr>"]
    by simp
qed

section \<open>Performance monitor: the frame window and the cooldown\<close>

lemma runTimeouts_none: "timeouts g = [] \<Longrightarrow> runTimeouts t g = g"
  by (simp add: runTimeouts_def)

lemma runTimeouts_not_due:
  "timeouts g = [(due, cb)] \<Longrightarrow> t < due \<Longrightarrow> runTimeouts t g = g"
  by (simp add: runTimeouts_def)

lemma update_in_window:
  "now - lastFPSUpdate (performanceMonitor g) < 1000 \<Longrightarrow>
   PerformanceMonitor_update now heap g =
     g\<lparr> performanceMonitor :=
          (performanceMonitor g)\<lparr> frameCount := frameCount (performanceMonitor g) + 1 \<rparr> \<rparr>"
  by (simp add: PerformanceMonitor_update_def Let_def)

lemma monitorFrames_in_window:
  "timeouts g = [] \<Longrightarrow> \<forall>t\<in>set ts. t - lastFPSUpdate (performanceMonitor g) < 1000 \<Longrightarrow>
   monitorFrames ts g =
     g\<lparr> performanceMonitor :=
          (performanceMonitor g)\<lparr> frameCount := frameCount (performanceMonitor g) + int (length ts) \<rparr> \<rparr>"
proof (induction ts arbitrary: g)
  case Nil
  then show ?case by simp
next
  case (Cons t ts)
  let ?g1 = "g\<lparr> performanceMonitor :=
          (performanceMonitor g)\<lparr> frameCount := frameCount (performanceMonitor g) + 1 \<rparr> \<rparr>"
  have s: "PerformanceMonitor_update t None (runTimeouts t g) = ?g1"
    using Cons.prems by (simp add: runTimeouts_none update_in_window)
  have "monitorFrames ts ?g1 =
     ?g1\<lparr> performanceMonitor :=
          (performanceMonitor ?g1)\<lparr> frameCount := frameCount (performanceMonitor ?g1) + int (length ts) \<rparr> \<rparr>"
    using Cons.prems by (intro Cons.IH) simp_all
  then show ?case by (simp add: s)
qed

lemma monitorFrames_append: "monitorFrames (ts @ us) g = monitorFrames us (monitorFrames ts g)"
  by (induction ts arbitrary: g) simp_all

lemma update_closing_quiet:
  "1000 \<le> now - lastFPSUpdate (performanceMonitor g) \<Longrightarrow>
   \<not> (frameCount (performanceMonitor g) + 1 < 45 \<and> \<not> isOptimizing (performanceMonitor g)) \<Longrightarrow>
   PerformanceMonitor_update now None g =
     g\<lparr> performanceMonitor :=
          (performanceMonitor g)\<lparr> currentFPS := frameCount (performanceMonitor g) + 1,
                                  frameCount := 0,
                                  lastFPSUpdate := now \<rparr> \<rparr>"
  by (auto simp: PerformanceMonitor_update_def Let_def)

lemma update_closing_trigger:
  "1000 \<le> now - lastFPSUpdate (performanceMonitor g) \<Longrightarrow>
   frameCount (performanceMonitor g) + 1 < 45 \<Longrightarrow> \<not> isOptimizing (performanceMonitor g) \<Longrightarrow>
   PerformanceMonitor_update now None g =
     triggerOptimization now
       (g\<lparr> performanceMonitor :=
            (performanceMonitor g)\<lparr> currentFPS := frameCount (performanceMonitor g) + 1,
                                    frameCount := 0,
                                    lastFPSUpdate := now \<rparr> \<rparr>)"
  by (auto simp: PerformanceMonitor_update_def Let_def)

lemma terrainDiversity_frame [simp]:
  "terrainDiversity (g\<lparr> performanceMonitor := p \<rparr>) = terrainDiversity g"
  "terrainDiversity (g\<lparr> warnings := w \<rparr>) = terrainDiversity g"
  "terrainDiversity (g\<lparr> timeouts := ts \<rparr>) = terrainDiversity g"
  by (simp_all add: terrainDiversity_def)

lemma update_uniforms_swap [simp]:
  "update_uniforms f (g\<lparr> performanceMonitor := p \<rparr>) = (update_uniforms f g)\<lparr> performanceMonitor := p \<rparr>"
  "update_uniforms f (g\<lparr> warnings := w \<rparr>) = (update_uniforms f g)\<lparr> warnings := w \<rparr>"
  by (simp_all add: update_uniforms_def split: option.splits)

lemma triggerOptimization_fields:
  "warnings (triggerOptimization now g) = warnings g @ [currentFPS (performanceMonitor g)]"
  "performanceMonitor (triggerOptimization now g) = (performanceMonitor g)\<lparr> isOptimizing := True \<rparr>"
  "timeouts (triggerOptimization now g) = timeouts g @ [(now + 3000, ResetOptimizing)]"
  by (simp_all add: triggerOptimization_def Let_def)

lemma triggerOptimization_diversity:
  "terrainDiversity g = Some v \<Longrightarrow> terrainDiversity (triggerOptimization now g) = Some (v * 0.7)"
  by (auto simp: triggerOptimization_def Let_def terrainDiversity_def update_uniforms_def
      split: option.splits)

lemma update_while_optimizing:
  assumes "isOptimizing (performanceMonitor g)"
  shows "warnings (PerformanceMonitor_update now None g) = warnings g"
    and "earthMesh (PerformanceMonitor_update now None g) = earthMesh g"
    and "isOptimizing (performanceMonitor (PerformanceMonitor_update now None g))"
    and "timeouts (PerformanceMonitor_update now None g) = timeouts g"
  using assms by (simp_all add: PerformanceMonitor_update_def Let_def)

lemma cooldown_frames:
  "isOptimizing (performanceMonitor g) \<Longrightarrow> timeouts g = [(due, ResetOptimizing)] \<Longrightarrow>
   \<forall>u\<in>set us. u < due \<Longrightarrow>
   warnings (monitorFrames us g) = warnings g
   \<and> terrainDiversity (monitorFrames us g) = terrainDiversity g
   \<and> isOptimizing (performanceMonitor (monitorFrames us g))
   \<and> timeouts (monitorFrames us g) = timeouts g"
proof (induction us arbitrary: g)
  case Nil
  then show ?case by simp
next
  case (Cons u us)
  let ?g1 = "PerformanceMonitor_update u None (runTimeouts u g)"
  have r: "runTimeouts u g = g"
    using Cons.prems by (intro runTimeouts_not_due [of g due]) simp_all
  note p = update_while_optimizing [OF Cons.prems(1), of u]
  have "warnings (monitorFrames us ?g1) = warnings ?g1
   \<and> terrainDiversity (monitorFrames us ?g1) = terrainDiversity ?g1
   \<and> isOptimizing (performanceMonitor (monitorFrames us ?g1))
   \<and> timeouts (monitorFrames us ?g1) = timeouts ?g1"
    using Cons.prems p by (intro Cons.IH) (simp_all add: r)
  moreover have "terrainDiversity ?g1 = terrainDiversity g"
    using p(2) by (simp add: r terrainDiversity_def)
  ultimately show ?case using p by (simp add: r)
qed

lemma steady_frames:
  "length (map (\<lambda>i. 20 * real i) [1..<45]) = 44"
  "\<forall>t\<in>set (map (\<lambda>i. 20 * real i) [1..<45]). t - lastFPSUpdate (performanceMonitor readyScene) < 1000"
  by (auto simp: readyScene_monitor)

text \<open>
  Claim C6, as the code has it. Start with no callback pending, a frame counter of zero,
  no mitigation in cooldown and a shader material whose terrain diversity is \<open>v\<close>. After
  a window of \<open>n\<close> frame ticks (all but the last within one second of the last FPS
  update, the last one at or past it) the monitor reports an FPS of \<open>n\<close>. If \<open>n \<ge> 45\<close>,
  and so at exactly \<open>45\<close> ticks, nothing else happens: no warning, the terrain diversity
  stays \<open>v\<close>. If \<open>n < 45\<close>, exactly one mitigation fires: one warning, the terrain diversity
  becomes \<open>0.7 * v\<close>, and the reset is scheduled \<open>3000\<close> ms later; until then no frame,
  whatever its frame rate, triggers another mitigation.
\<close>

theorem monitor_window_mitigation:
  fixes g :: globals and ts us :: "real list" and now :: real
  assumes "timeouts g = []"
    and "frameCount (performanceMonitor g) = 0"
    and "\<not> isOptimizing (performanceMonitor g)"
    and "terrainDiversity g = Some v"
    and "\<forall>t\<in>set ts. t - lastFPSUpdate (performanceMonitor g) < 1000"
    and "1000 \<le> now - lastFPSUpdate (performanceMonitor g)"
  defines "g' \<equiv> monitorFrames (ts @ [now]) g"
  shows "currentFPS (performanceMonitor g') = int (length ts) + 1
       \<and> (45 \<le> int (length ts) + 1 \<longrightarrow>
            warnings g' = warnings g \<and> terrainDiversity g' = Some v
          \<and> \<not> isOptimizing (performanceMonitor g') \<and> timeouts g' = [])
       \<and> (int (length ts) + 1 < 45 \<longrightarrow>
            warnings g' = warnings g @ [int (length ts) + 1]
          \<and> terrainDiversity g' = Some (v * 0.7)
          \<and> isOptimizing (performanceMonitor g')
          \<and> timeouts g' = [(now + 3000, ResetOptimizing)]
          \<and> ((\<forall>u\<in>set us. u < now + 3000) \<longrightarrow>
                warnings (monitorFrames us g') = warnings g'
              \<and> terrainDiversity (monitorFrames us g') = Some (v * 0.7)))"
proof -
  let ?n = "int (length ts)"
  let ?g1 = "g\<lparr> performanceMonitor := (performanceMonitor g)\<lparr> frameCount := ?n \<rparr> \<rparr>"
  let ?g2 = "?g1\<lparr> performanceMonitor :=
          (performanceMonitor ?g1)\<lparr> currentFPS := ?n + 1, frameCount := 0, lastFPSUpdate := now \<rparr> \<rparr>"
  have w: "monitorFrames ts g = ?g1"
    using monitorFrames_in_window [OF assms(1,5)] assms(2) by simp
  have g': "g' = PerformanceMonitor_update now None ?g1"
    using assms(1) by (simp add: g'_def monitorFrames_append w runTimeouts_none)
  have quiet: "g' = ?g2" if "45 \<le> ?n + 1"
    unfolding g' using that assms(6) by (subst update_closing_quiet) simp_all
  have loud: "g' = triggerOptimization now ?g2" if "?n + 1 < 45"
    unfolding g' using that assms(3,6) by (subst update_closing_trigger) simp_all
  note eff = triggerOptimization_fields
  have fps: "currentFPS (performanceMonitor g') = ?n + 1"
  proof (cases "45 \<le> ?n + 1")
    case True
    then show ?thesis by (simp add: quiet)
  next
    case False
    then show ?thesis by (simp add: loud eff)
  qed
  have q: "45 \<le> ?n + 1 \<longrightarrow>
            warnings g' = warnings g \<and> terrainDiversity g' = Some v
          \<and> \<not> isOptimizing (performanceMonitor g') \<and> timeouts g' = []"
    using assms(1,3,4) by (auto simp: quiet)
  have l: "warnings g' = warnings g @ [?n + 1]
          \<and> terrainDiversity g' = Some (v * 0.7)
          \<and> isOptimizing (performanceMonitor g')
          \<and> timeouts g' = [(now + 3000, ResetOptimizing)]
          \<and> ((\<forall>u\<in>set us. u < now + 3000) \<longrightarrow>
                warnings (monitorFrames us g') = warnings g'
              \<and> terrainDiversity (monitorFrames us g') = Some (v * 0.7))" if lt: "?n + 1 < 45"
  proof -
    have dv: "terrainDiversity g' = Some (v * 0.7)"
      unfolding loud [OF lt] by (rule triggerOptimization_diversity) (simp add: assms(4))
    have a: "warnings g' = warnings g @ [?n + 1]" "terrainDiversity g' = Some (v * 0.7)"
      "isOptimizing (performanceMonitor g')" "timeouts g' = [(now + 3000, ResetOptimizing)]"
      using assms(1) dv by (simp_all add: loud [OF lt] triggerOptimization_fields)
    have "warnings (monitorFrames us g') = warnings g'
              \<and> terrainDiversity (monitorFrames us g') = Some (v * 0.7)"
      if "\<forall>u\<in>set us. u < now + 3000"
      using cooldown_frames [OF a(3,4) that] a(2) by simp
    then show ?thesis using a by blast
  qed
  show ?thesis using fps q l by blast
qed

theorem monitor_window_mitigation_witness:
  "timeouts readyScene = [] \<and> frameCount (performanceMonitor readyScene) = 0
   \<and> \<not> isOptimizing (performanceMonitor readyScene) \<and> terrainDiversity readyScene = Some 1
   \<and> currentFPS (performanceMonitor (monitorFrames (map (\<lambda>i. 20 * real i) [1..<45] @ [1000]) readyScene)) = 45
   \<and> warnings (monitorFrames (map (\<lambda>i. 20 * real i) [1..<45] @ [1000]) readyScene) = []
   \<and> currentFPS (performanceMonitor (monitorFrames ([100, 200] @ [1000]) readyScene)) = 3
   \<and> warnings (monitorFrames ([100, 200] @ [1000]) readyScene) = [3]
   \<and> terrainDiversity (monitorFrames ([100, 200] @ [1000]) readyScene) = Some (7 / 10)
   \<and> timeouts (monitorFrames ([100, 200] @ [1000]) readyScene) = [(4000, ResetOptimizing)]
   \<and> warnings (monitorFrames [2000, 3000] (monitorFrames ([100, 200] @ [1000]) readyScene)) = [3]
   \<and> terrainDiversity (monitorFrames [2000, 3000] (monitorFrames ([100, 200] @ [1000]) readyScene))
       = Some (7 / 10)"
proof -
  note h = readyScene_fields(4) readyScene_monitor(1,3) terrainDiversity_ready
  have a: "\<forall>t\<in>set [100, 200 :: real]. t - lastFPSUpdate (performanceMonitor readyScene) < 1000"
    "(1000 :: real) \<le> 1000 - lastFPSUpdate (performanceMonitor readyScene)"
    by (simp_all add: readyScene_monitor)
  note many = monitor_window_mitigation [OF h steady_frames(2) a(2), where us = "[]"]
  note few = monitor_window_mitigation [OF h a, where us = "[2000, 3000]"]
  show ?thesis
    using h many few by (simp add: readyScene_fields del: monitorFrames.simps)
qed

text \<open>
  Claim C6, as stated, fails at its own example: a one-second window of exactly \<open>45\<close>
  frame ticks (every 20 ms up to 880 ms, then one at 1000 ms) on the freshly built scene
  reports \<open>45\<close> FPS and triggers no mitigation; the terrain diversity stays \<open>1\<close>.
\<close>

theorem monitor_45_ticks_no_mitigation:
  "currentFPS (performanceMonitor (monitorFrames (map (\<lambda>i. 20 * real i) [1..<45] @ [1000]) readyScene)) = 45
   \<and> warnings (monitorFrames (map (\<lambda>i. 20 * real i) [1..<45] @ [1000]) readyScene) = []
   \<and> terrainDiversity readyScene = Some 1
   \<and> terrainDiversity (monitorFrames (map (\<lambda>i. 20 * real i) [1..<45] @ [1000]) readyScene) = Some 1
   \<and> \<not> isOptimizing (performanceMonitor (monitorFrames (map (\<lambda>i. 20 * real i) [1..<45] @ [1000]) readyScene))"
proof -
  let ?ts = "map (\<lambda>i. 20 * real i) [1..<45]"
  let ?g1 = "readyScene\<lparr> performanceMonitor := (performanceMonitor readyScene)\<lparr> frameCount := 44 \<rparr> \<rparr>"
  have w: "monitorFrames ?ts readyScene = ?g1"
    using monitorFrames_in_window [OF readyScene_fields(4) steady_frames(2)]
    by (simp add: readyScene_monitor)
  have "monitorFrames (?ts @ [1000]) readyScene = PerformanceMonitor_update 1000 None ?g1"
    unfolding monitorFrames_append w by (simp add: runTimeouts_none readyScene_fields)
  also have "\<dots> = ?g1\<lparr> performanceMonitor :=
          (performanceMonitor ?g1)\<lparr> currentFPS := frameCount (performanceMonitor ?g1) + 1,
                                    frameCount := 0, lastFPSUpdate := 1000 \<rparr> \<rparr>"
    by (rule update_closing_quiet) (simp_all add: readyScene_monitor)
  finally show ?thesis
    by (simp add: readyScene_fields readyScene_monitor terrainDiversity_ready PerformanceMonitor_new_def)
qed

end
